theory Spec2Isabelle
  imports Main "HOL-Library.Sublist"
begin

section \<open>Text primitives of the Python runtime\<close>

text \<open>
  Python strings are modelled as HOL strings. The tools whose output is read (adb, scrcpy)
  write ASCII text, so a character is a code point below 256. \<open>isspace\<close> lists the code
  points below 256 that \<open>str.isspace\<close> accepts: these are the characters removed by
  \<open>str.strip()\<close> when it is called without an argument.
\<close>

definition isspace :: "char \<Rightarrow> bool" where
  "isspace c = (c \<in> set [CHR 0x09, CHR 0x0A, CHR 0x0B, CHR 0x0C, CHR 0x0D,
                          CHR 0x1C, CHR 0x1D, CHR 0x1E, CHR 0x1F, CHR 0x20,
                          CHR 0x85, CHR 0xA0])"

text \<open>\<open>s.strip()\<close>: leading and trailing whitespace removed.\<close>

definition strip :: "string \<Rightarrow> string" where
  "strip s = rev (dropWhile isspace (rev (dropWhile isspace s)))"

text \<open>\<open>sub in s\<close> on strings: \<open>sub\<close> occurs in \<open>s\<close> as a contiguous run of characters.\<close>

fun contains :: "string \<Rightarrow> string \<Rightarrow> bool" where
  "contains sub [] = (sub = [])"
| "contains sub (c # cs) = (prefix sub (c # cs) \<or> contains sub cs)"

text \<open>\<open>s.split(sep)\<close> for a one-character separator: never an empty list.\<close>

fun split :: "char \<Rightarrow> string \<Rightarrow> string list" where
  "split sep [] = [[]]"
| "split sep (c # cs) =
     (if c = sep then [] # split sep cs
      else (case split sep cs of
              [] \<Rightarrow> [[c]]
            | field # fields \<Rightarrow> (c # field) # fields))"

section \<open>Observable effects\<close>

text \<open>
  Everything the program does to the outside world is recorded as an event, in program
  order: a line printed, a call of \<open>input\<close> with its prompt, the shared
  \<open>device_disconnected\<close> event being set, an external command run through
  \<open>subprocess.run\<close> (from an argument list, or through the shell), a file removed, a
  named pipe created, a process started with \<open>Popen\<close>, and the three calls made on a
  tracked \<open>Popen\<close> handle (identified by a number).
\<close>

datatype event =
    Print string
  | Prompt string
  | Set_device_disconnected
  | Run "string list"
  | Run_shell string
  | Remove string
  | Mkfifo string
  | Popen "string list"
  | Terminate nat
  | Wait nat
  | Kill nat

section \<open>The stream monitor: \<open>monitor_process_output.read_stream\<close>\<close>

text \<open>
  The four categories of the specification's ClassifiedLine. The source has no such tag;
  the category names the branch of \<open>read_stream\<close> that handled the line.
\<close>

datatype category = disconnect | fatal_error | warning | info

text \<open>
  The body of the loop from the first test on \<open>line_str\<close> (the stripped, non-empty
  line) on: the branch taken and the effects of that branch, in the order of the source.
\<close>

definition handle_line :: "string \<Rightarrow> string \<Rightarrow> string \<Rightarrow> category \<times> event list" where
  "handle_line process_name stream_name line_str =
     (if contains ''Device disconnected'' line_str \<and> contains ''WARN:'' line_str then
        (disconnect,
         [Print (''[!] '' @ process_name @ '': Device disconnected detected!''),
          Set_device_disconnected])
      else if contains ''Could not find any ADB device'' line_str then
        (disconnect,
         [Print (''[!] '' @ process_name @ '': No ADB device found!''),
          Set_device_disconnected])
      else if list_ex (\<lambda>keyword. contains keyword line_str)
                [''ERROR:'', ''FATAL:'', ''Failed'', ''Error'', ''Cannot''] then
        (fatal_error,
         [Print (''[!] '' @ process_name @ '' ('' @ stream_name @ ''): '' @ line_str)])
      else if contains ''WARN:'' line_str \<and> \<not> contains ''Device disconnected'' line_str then
        (warning,
         [Print (''[W] '' @ process_name @ '' ('' @ stream_name @ ''): '' @ line_str)])
      else (info, []))"

text \<open>
  What one call of \<open>stream.readline()\<close> does: it returns text (the empty string at end
  of file), or raises an exception, given here by its message.
\<close>

datatype readline = Line string | Raises string

text \<open>
  One record per iteration of the loop that got as far as handling a line, and one for
  the exception handler.
\<close>

datatype iteration =
    Classified string category "event list"
  | Read_failed "event list"

fun effects :: "iteration \<Rightarrow> event list" where
  "effects (Classified line_str c evs) = evs"
| "effects (Read_failed evs) = evs"

fun is_disconnect :: "iteration \<Rightarrow> bool" where
  "is_disconnect (Classified line_str c evs) = (c = disconnect)"
| "is_disconnect (Read_failed evs) = False"

text \<open>
  \<open>read_stream\<close> over the successive results of \<open>readline\<close>. The end of the list is the
  end of the stream, where \<open>readline\<close> returns the empty string and \<open>iter\<close> stops; an
  empty string also stops the loop. A blank line is skipped. A line handled by one of the
  two disconnection branches returns from the function; an exception leaves the loop for
  the handler, which prints and returns.
\<close>

fun read_stream :: "string \<Rightarrow> string \<Rightarrow> readline list \<Rightarrow> iteration list" where
  "read_stream process_name stream_name [] = []"
| "read_stream process_name stream_name (Raises e # rest) =
     [Read_failed [Print (''[!] Error monitoring '' @ process_name @ '' '' @ stream_name
                          @ '': '' @ e)]]"
| "read_stream process_name stream_name (Line line # rest) =
     (if line = [] then []
      else if strip line = [] then read_stream process_name stream_name rest
      else (case handle_line process_name stream_name (strip line) of
              (c, evs) \<Rightarrow>
                Classified (strip line) c evs #
                (if c = disconnect then []
                 else read_stream process_name stream_name rest)))"

subsection \<open>The classification policy in the specification's words\<close>

text \<open>
  The policy of the specification, stated on the line as it is read from the stream
  (before \<open>strip\<close>), to be compared with what \<open>read_stream\<close> does. The disconnection
  pattern is the marker of a lost device link (the text \<open>Device disconnected\<close> in a
  warning line) or the marker that no device is reachable.
\<close>

definition disconnection_pattern :: "string \<Rightarrow> bool" where
  "disconnection_pattern l =
     (contains ''Device disconnected'' l \<and> contains ''WARN:'' l
      \<or> contains ''Could not find any ADB device'' l)"

definition fatal_error_marker :: "string \<Rightarrow> bool" where
  "fatal_error_marker l =
     (contains ''ERROR:'' l \<or> contains ''FATAL:'' l \<or> contains ''Failed'' l
      \<or> contains ''Error'' l \<or> contains ''Cannot'' l)"

definition spec_category :: "string \<Rightarrow> category" where
  "spec_category l =
     (if disconnection_pattern l then disconnect
      else if fatal_error_marker l then fatal_error
      else if contains ''WARN:'' l \<and> \<not> contains ''Device disconnected'' l then warning
      else info)"

text \<open>
  A result of \<open>readline\<close> after which the loop goes on to the next one: a line that is
  not the end-of-file value and does not match the disconnection pattern.
\<close>

fun passes :: "readline \<Rightarrow> bool" where
  "passes (Line l) = (l \<noteq> [] \<and> \<not> disconnection_pattern l)"
| "passes (Raises e) = False"


section \<open>Configuration constants\<close>

definition V4L2_DEVICE :: string where
  "V4L2_DEVICE = ''/dev/video0''"

definition CARD_LABEL :: string where
  "CARD_LABEL = ''AdbCam''"

definition DEFAULT_FPS :: string where
  "DEFAULT_FPS = ''60''"

definition VIRTUAL_MIC_SOURCE :: string where
  "VIRTUAL_MIC_SOURCE = ''AdbCam''"

definition PIPE_PATH :: string where
  "PIPE_PATH = ''/tmp/adbcam_pipe''"

section \<open>Exceptions, program state and library calls\<close>

text \<open>
  An exception in flight. \<open>Exception\<close> stands for every exception of the class of that
  name or of a subclass of it (OSError, RuntimeError, ValueError, IndexError, EOFError,
  the errors of \<open>subprocess\<close>), with its message; these are the ones a clause
  \<open>except Exception\<close> catches. \<open>KeyboardInterrupt\<close> and \<open>SystemExit\<close> are outside that
  class and are caught only by a bare \<open>except\<close> or by their own name.
\<close>

datatype exn = Exception string | KeyboardInterrupt | SystemExit int

text \<open>
  The module globals used for cleanup, the \<open>device_disconnected\<close> event, and the one
  fact about the file system that the program tests: whether \<open>PIPE_PATH\<close> exists.
  \<open>Popen\<close> handles and \<open>Thread\<close> objects are numbers.
\<close>

record world =
  MODULE_ID :: "string option"
  scrcpy_processes :: "nat list"
  monitoring_threads :: "nat list"
  device_disconnected :: bool
  pipe_exists :: bool

text \<open>
  How the outside world answers the library calls of one run of \<open>cleanup\<close>.
  \<open>thread.is_alive()\<close> returns a truth value. Each of the other calls returns (\<open>None\<close>)
  or raises an exception of class \<open>Exception\<close> with the given message. For
  \<open>proc.wait(timeout=2)\<close> the exception is \<open>TimeoutExpired\<close>: the process did not exit
  within the two seconds. Signals that arrive while \<open>cleanup\<close> runs are not part of the
  model.
\<close>

record responses =
  on_is_alive :: "nat \<Rightarrow> bool"
  on_unload :: "string option"
  on_remove :: "string option"
  on_pkill :: "string option"
  on_terminate :: "nat \<Rightarrow> string option"
  on_wait :: "nat \<Rightarrow> string option"
  on_kill :: "nat \<Rightarrow> string option"

text \<open>
  A block of statements is the events it produced and the exception that ended it, if
  any. \<open>call\<close> is one library call, \<open>then_do\<close> is sequencing (the second block does not
  run when the first raised), and \<open>try_except\<close> is a \<open>try\<close> whose handler catches whatever
  the body raises; the handlers of \<open>cleanup\<close> only print or do nothing, so the result is
  a list of events.
\<close>

type_synonym block = "event list \<times> string option"

definition call :: "event \<Rightarrow> string option \<Rightarrow> block" where
  "call ev answer = ([ev], answer)"

definition then_do :: "block \<Rightarrow> block \<Rightarrow> block" where
  "then_do b1 b2 =
     (case snd b1 of
        Some e \<Rightarrow> b1
      | None \<Rightarrow> (fst b1 @ fst b2, snd b2))"

definition try_except :: "block \<Rightarrow> (string \<Rightarrow> event list) \<Rightarrow> event list" where
  "try_except body handler =
     (case snd body of
        None \<Rightarrow> fst body
      | Some e \<Rightarrow> fst body @ handler e)"

section \<open>\<open>cleanup\<close>\<close>

text \<open>
  The loop over \<open>monitoring_threads\<close>. Assigning \<open>daemon\<close> on a thread that has been
  started raises RuntimeError, and a thread that is alive has been started: the first
  thread found alive ends the loop, and \<open>cleanup\<close>, with that exception.
\<close>

fun stop_monitoring_threads :: "responses \<Rightarrow> nat list \<Rightarrow> exn option" where
  "stop_monitoring_threads r [] = None"
| "stop_monitoring_threads r (thread # threads) =
     (if on_is_alive r thread
      then Some (Exception ''cannot set daemon status of active thread'')
      else stop_monitoring_threads r threads)"

text \<open>\<open>if MODULE_ID:\<close> holds for a string that is not empty.\<close>

definition unload_module :: "responses \<Rightarrow> world \<Rightarrow> event list" where
  "unload_module r w =
     (case MODULE_ID w of
        None \<Rightarrow> []
      | Some module_id \<Rightarrow>
          if module_id = [] then []
          else try_except
                 (call (Run [''pactl'', ''unload-module'', module_id]) (on_unload r))
                 (\<lambda>e. [Print (''[!] Error unloading module: '' @ e)]))"

definition remove_pipe :: "responses \<Rightarrow> world \<Rightarrow> event list" where
  "remove_pipe r w =
     (if pipe_exists w then
        try_except (call (Remove PIPE_PATH) (on_remove r))
          (\<lambda>e. [Print (''[!] Error removing pipe: '' @ e)])
      else [])"

definition kill_scrcpy :: "responses \<Rightarrow> event list" where
  "kill_scrcpy r =
     try_except (call (Run [''pkill'', ''-f'', ''scrcpy'']) (on_pkill r))
       (\<lambda>e. [Print (''[!] Error killing scrcpy processes: '' @ e)])"

text \<open>
  The loop over \<open>scrcpy_processes\<close>: \<open>terminate\<close> then \<open>wait\<close>; when either raises, \<open>kill\<close>,
  whose own exception is dropped. The loop reads the list and does not change it.
\<close>

fun terminate_tracked :: "responses \<Rightarrow> nat list \<Rightarrow> event list" where
  "terminate_tracked r [] = []"
| "terminate_tracked r (proc # procs) =
     try_except
       (then_do (call (Terminate proc) (on_terminate r proc))
                (call (Wait proc) (on_wait r proc)))
       (\<lambda>e. try_except (call (Kill proc) (on_kill r proc)) (\<lambda>e'. []))
     @ terminate_tracked r procs"

text \<open>
  \<open>cleanup\<close>: the events of the call, and either the exception that left it or the world
  it returned in. The only change to the world is that the pipe is gone once
  \<open>os.remove\<close> has returned.
\<close>

definition cleanup :: "responses \<Rightarrow> world \<Rightarrow> event list \<times> (exn + world)" where
  "cleanup r w =
     (case stop_monitoring_threads r (monitoring_threads w) of
        Some e \<Rightarrow> ([Print ''[*] Cleaning up...''], Inl e)
      | None \<Rightarrow>
          ([Print ''[*] Cleaning up...'']
             @ unload_module r w
             @ remove_pipe r w
             @ kill_scrcpy r
             @ terminate_tracked r (scrcpy_processes w),
           Inr (w\<lparr>pipe_exists := pipe_exists w \<and> on_remove r \<noteq> None\<rparr>)))"

text \<open>The process handles on which an event list calls \<open>terminate\<close> and \<open>kill\<close>, in order.\<close>

fun terminate_requests :: "event list \<Rightarrow> nat list" where
  "terminate_requests [] = []"
| "terminate_requests (Terminate p # evs) = p # terminate_requests evs"
| "terminate_requests (ev # evs) = terminate_requests evs"

fun kill_requests :: "event list \<Rightarrow> nat list" where
  "kill_requests [] = []"
| "kill_requests (Kill p # evs) = p # kill_requests evs"
| "kill_requests (ev # evs) = kill_requests evs"

text \<open>The error messages an event list prints: the lines that start with \<open>[!]\<close>.\<close>

fun error_lines :: "event list \<Rightarrow> string list" where
  "error_lines [] = []"
| "error_lines (Print text # evs) =
     (if prefix ''[!]'' text then text # error_lines evs else error_lines evs)"
| "error_lines (ev # evs) = error_lines evs"

text \<open>
  A tracked process counts as not having exited within the grace period when the attempt
  \<open>terminate\<close>, \<open>wait\<close> on it raised: normally \<open>wait\<close> with \<open>TimeoutExpired\<close>.
\<close>

definition not_exited_in_grace :: "responses \<Rightarrow> nat \<Rightarrow> bool" where
  "not_exited_in_grace r proc = (on_terminate r proc \<noteq> None \<or> on_wait r proc \<noteq> None)"

definition module_acquired :: "world \<Rightarrow> bool" where
  "module_acquired w = (case MODULE_ID w of None \<Rightarrow> False | Some module_id \<Rightarrow> module_id \<noteq> [])"

subsection \<open>Example worlds and answers\<close>

text \<open>
  A world after a successful setup: a module id recorded, two tracked processes and their
  two launcher threads, the pipe in place. Then three ways the library calls may
  answer: every call returns; every call returns but process 2 does not exit within the
  timeout; every call raises.
\<close>

definition after_setup :: world where
  "after_setup =
     \<lparr>MODULE_ID = Some ''42'', scrcpy_processes = [1, 2],
      monitoring_threads = [1, 2],
      device_disconnected = False, pipe_exists = True\<rparr>"

definition all_return :: responses where
  "all_return =
     \<lparr>on_is_alive = (\<lambda>t. False), on_unload = None, on_remove = None, on_pkill = None,
      on_terminate = (\<lambda>p. None), on_wait = (\<lambda>p. None), on_kill = (\<lambda>p. None)\<rparr>"

definition second_hangs :: responses where
  "second_hangs =
     \<lparr>on_is_alive = (\<lambda>t. False), on_unload = None, on_remove = None, on_pkill = None,
      on_terminate = (\<lambda>p. None),
      on_wait = (\<lambda>p. if p = 2 then Some ''timed out after 2 seconds'' else None),
      on_kill = (\<lambda>p. None)\<rparr>"

definition all_raise :: responses where
  "all_raise =
     \<lparr>on_is_alive = (\<lambda>t. False), on_unload = Some ''No such file or directory'',
      on_remove = Some ''Permission denied'',
      on_pkill = Some ''No such file or directory'',
      on_terminate = (\<lambda>p. Some ''Permission denied''),
      on_wait = (\<lambda>p. None),
      on_kill = (\<lambda>p. Some ''Permission denied'')\<rparr>"

definition tracked_raise :: responses where
  "tracked_raise =
     \<lparr>on_is_alive = (\<lambda>t. False), on_unload = None, on_remove = None, on_pkill = None,
      on_terminate = (\<lambda>p. Some ''Permission denied''),
      on_wait = (\<lambda>p. None),
      on_kill = (\<lambda>p. Some ''Permission denied'')\<rparr>"

section \<open>\<open>check_adb_devices\<close>\<close>

text \<open>\<open>s.startswith(p)\<close> and \<open>sep.join(xs)\<close>.\<close>

definition startswith :: "string \<Rightarrow> string \<Rightarrow> bool" where
  "startswith s p = prefix p s"

fun join :: "string \<Rightarrow> string list \<Rightarrow> string" where
  "join sep [] = []"
| "join sep [x] = x"
| "join sep (x # y # ys) = x @ sep @ join sep (y # ys)"

text \<open>
  What a call \<open>subprocess.run(..., capture_output=True, text=True, check=True)\<close> does:
  the command ran and exited with status zero, leaving its two outputs; or the call
  raised \<open>TimeoutExpired\<close>, \<open>CalledProcessError\<close> (the command exited with another status;
  the message of the exception and the captured error output), \<open>FileNotFoundError\<close>
  (no such program), or some other exception of class \<open>Exception\<close>, with its message.
\<close>

datatype run_result =
    Completed string string
  | TimeoutExpired
  | CalledProcessError string string
  | FileNotFoundError string
  | OtherError string

text \<open>
  The loop over \<open>lines[1:]\<close>: each line is stripped; a line that is not empty, does not
  start with an asterisk, and whose second tab-separated field is \<open>device\<close> contributes
  its first field.
\<close>

fun collect_devices :: "string list \<Rightarrow> string list" where
  "collect_devices [] = []"
| "collect_devices (raw # rest) =
     (let line = strip raw in
      if line \<noteq> [] \<and> \<not> startswith line ''*'' then
        (let parts = split (CHR 0x09) line in
         if 2 \<le> length parts \<and> parts ! 1 = ''device''
         then parts ! 0 # collect_devices rest
         else collect_devices rest)
      else collect_devices rest)"

definition check_adb_devices :: "run_result \<Rightarrow> event list \<times> bool" where
  "check_adb_devices answer =
     (case answer of
        Completed out err \<Rightarrow>
          (let lines = split (CHR 0x0A) (strip out);
               devices = collect_devices (tl lines)
           in if devices \<noteq> [] then
                ([Print ''[*] Checking for connected ADB devices...'',
                  Print (''[+] Found ADB device(s): '' @ join '', '' devices)], True)
              else
                ([Print ''[*] Checking for connected ADB devices...'',
                  Print (''[!] No ADB devices found in '' @ [CHR 0x27] @ ''device''
                         @ [CHR 0x27] @ '' state'')], False))
      | TimeoutExpired \<Rightarrow>
          ([Print ''[*] Checking for connected ADB devices...'',
            Print ''[!] Timeout checking ADB devices''], False)
      | CalledProcessError e err \<Rightarrow>
          ([Print ''[*] Checking for connected ADB devices...'',
            Print (''[!] Failed to check ADB devices: '' @ e)]
           @ (if err \<noteq> [] then [Print (''[!] ADB Error: '' @ err)] else []), False)
      | FileNotFoundError e \<Rightarrow>
          ([Print ''[*] Checking for connected ADB devices...'',
            Print (''[!] ADB command not found. ''
                   @ ''Please install Android Debug Bridge (adb)'')], False)
      | OtherError e \<Rightarrow>
          ([Print ''[*] Checking for connected ADB devices...'',
            Print (''[!] Error checking ADB devices: '' @ e)], False))"

subsection \<open>The lines that report a usable device\<close>

text \<open>
  A line reports a device in the \<open>device\<close> state when it does not start with an asterisk
  and splits on the tab character into at least two fields of which the second is
  exactly \<open>device\<close>. The lines after the first header line of an output are, read as
  written, the lines of the output after the first one.
\<close>

definition lines_after_header :: "string \<Rightarrow> string list" where
  "lines_after_header out = tl (split (CHR 0x0A) out)"

text \<open>
  The lines the loop examines are not those: surrounding whitespace is removed from the
  whole output before it is cut into lines, and then from each line after the first.
\<close>

definition examined_lines :: "string \<Rightarrow> string list" where
  "examined_lines out = map strip (tl (split (CHR 0x0A) (strip out)))"

definition reports_device :: "string \<Rightarrow> bool" where
  "reports_device line =
     (\<not> startswith line ''*''
      \<and> 2 \<le> length (split (CHR 0x09) line)
      \<and> split (CHR 0x09) line ! 1 = ''device'')"

text \<open>The state a line gives for a device: its second tab-separated field, if it has one.\<close>

definition device_state :: "string \<Rightarrow> string option" where
  "device_state line =
     (if 2 \<le> length (split (CHR 0x09) line) then Some (split (CHR 0x09) line ! 1) else None)"

subsection \<open>Example outputs of \<open>adb devices\<close>\<close>

definition one_ready_one_offline :: string where
  "one_ready_one_offline =
     ''List of devices attached\<newline>R58M123ABC'' @ [CHR 0x09] @ ''device\<newline>''
     @ ''emulator-5554'' @ [CHR 0x09] @ ''offline\<newline>\<newline>''"

definition none_ready :: string where
  "none_ready =
     ''List of devices attached\<newline>R58M123ABC'' @ [CHR 0x09] @ ''unauthorized\<newline>''
     @ ''emulator-5554'' @ [CHR 0x09] @ ''offline\<newline>\<newline>''"

text \<open>
  Two outputs on which the lines as written and the lines as examined differ: a blank
  after the state of the device, and a device line without a serial number.
\<close>

definition blank_after_state :: string where
  "blank_after_state =
     ''List of devices attached\<newline>R58M123ABC'' @ [CHR 0x09] @ ''device \<newline>''"

definition no_serial :: string where
  "no_serial = ''List of devices attached\<newline>'' @ [CHR 0x09] @ ''device\<newline>''"

section \<open>The interactive selection\<close>

text \<open>
  Two built-in functions are parameters of the model: \<open>int\<close> on a string (\<open>None\<close> is
  ValueError) and \<open>str\<close> on an integer.
\<close>

record builtins =
  int_of :: "string \<Rightarrow> int option"
  str_of :: "int \<Rightarrow> string"

text \<open>
  What one call of \<open>input\<close> meets on the console: a line typed by the operator, or a
  termination signal, for which \<open>signal_handler\<close> runs inside the call (with the given
  answers to its library calls). The end of the list is the end of the input, where
  \<open>input\<close> raises EOFError.

  The module installs \<open>signal_handler\<close> for SIGINT and SIGTERM when it is loaded, before
  \<open>main\<close> is called. Ctrl+C at a prompt is therefore a signal like any other, and \<open>input\<close>
  does not raise KeyboardInterrupt: the clauses \<open>except KeyboardInterrupt\<close> that surround
  the prompts are never entered, and no outcome of \<open>input\<close> leads into them.

  A function that reads from the console stops either by raising an exception or because
  a signal arrived; the caller that knows the program state runs the handler.
\<close>

datatype answer = Typed string | Signal responses

datatype stop = Raise exn | Signalled responses

text \<open>The value of one entry of the dictionary built by \<open>parse_camera_info\<close>.\<close>

record camera =
  info_type :: string
  info_default_resolution :: string
  info_fps_range :: string
  info_resolutions :: "string list"

text \<open>A dictionary with string keys, in insertion order.\<close>

type_synonym cameras = "(string \<times> camera) list"

subsection \<open>\<open>select_camera\<close>\<close>

text \<open>The first loop: the camera id, \<open>0\<close> when the line is blank.\<close>

fun choose_camera ::
  "cameras \<Rightarrow> answer list \<Rightarrow> event list \<times> (stop + string) \<times> answer list" where
  "choose_camera cameras [] =
     ([Prompt ''\<newline>Select camera ID (default: 0): ''],
      Inl (Raise (Exception ''EOF when reading a line'')), [])"
| "choose_camera cameras (Signal r # rest) =
     ([Prompt ''\<newline>Select camera ID (default: 0): ''], Inl (Signalled r), rest)"
| "choose_camera cameras (Typed text # rest) =
     (let selected_camera = (if strip text = [] then ''0'' else strip text) in
      if selected_camera \<in> set (map fst cameras) then
        ([Prompt ''\<newline>Select camera ID (default: 0): ''], Inr selected_camera, rest)
      else
        (case choose_camera cameras rest of
           (evs, res, rest') \<Rightarrow>
             (Prompt ''\<newline>Select camera ID (default: 0): ''
              # Print (''[!] Invalid camera ID. Available: '' @ join '', '' (map fst cameras))
              # evs, res, rest')))"

definition common_resolutions :: "string list" where
  "common_resolutions =
     [''1920x1080'', ''1280x720'', ''640x480'', ''1920x1440'', ''2560x1440'', ''3840x2160'']"

text \<open>
  The second loop. A blank line selects \<open>1920x1080\<close> when the camera offers it and
  \<open>resolutions[0]\<close> otherwise, which raises IndexError on an empty list.
\<close>

fun choose_resolution ::
  "builtins \<Rightarrow> string list \<Rightarrow> string list \<Rightarrow> answer list
     \<Rightarrow> event list \<times> (stop + string) \<times> answer list" where
  "choose_resolution b resolutions all_available [] =
     ([Prompt (''\<newline>Select resolution (1-'' @ str_of b (int (length all_available))
               @ '', default: 1920x1080): '')],
      Inl (Raise (Exception ''EOF when reading a line'')), [])"
| "choose_resolution b resolutions all_available (Signal r # rest) =
     ([Prompt (''\<newline>Select resolution (1-'' @ str_of b (int (length all_available))
               @ '', default: 1920x1080): '')],
      Inl (Signalled r), rest)"
| "choose_resolution b resolutions all_available (Typed text # rest) =
     (let prompt = Prompt (''\<newline>Select resolution (1-''
                           @ str_of b (int (length all_available))
                           @ '', default: 1920x1080): '');
          res_input = strip text
      in
      if res_input = [] then
        (if ''1920x1080'' \<in> set resolutions then ([prompt], Inr ''1920x1080'', rest)
         else (case resolutions of
                 [] \<Rightarrow> ([prompt], Inl (Raise (Exception ''list index out of range'')), rest)
               | first # others \<Rightarrow> ([prompt], Inr first, rest)))
      else
        (case int_of b res_input of
           None \<Rightarrow>
             (case choose_resolution b resolutions all_available rest of
                (evs, res, rest') \<Rightarrow>
                  (prompt # Print ''[!] Please enter a number'' # evs, res, rest'))
         | Some n \<Rightarrow>
             (let res_idx = n - 1 in
              if 0 \<le> res_idx \<and> res_idx < int (length all_available) then
                ([prompt], Inr (all_available ! nat res_idx), rest)
              else
                (case choose_resolution b resolutions all_available rest of
                   (evs, res, rest') \<Rightarrow>
                     (prompt
                      # Print (''[!] Invalid selection. Choose 1-''
                               @ str_of b (int (length all_available)))
                      # evs, res, rest')))))"

text \<open>\<open>max\<close> of a list of integers, and the way \<open>print\<close> shows such a list.\<close>

fun max_of :: "int list \<Rightarrow> int option" where
  "max_of [] = None"
| "max_of (x # xs) = Some (fold max xs x)"

definition show_list :: "builtins \<Rightarrow> int list \<Rightarrow> string" where
  "show_list b xs = ''['' @ join '', '' (map (str_of b) xs) @ '']''"

definition fps_prompt :: "builtins \<Rightarrow> int list \<Rightarrow> event" where
  "fps_prompt b fps_options =
     Prompt (''Select FPS ('' @ join ''/'' (map (str_of b) fps_options) @ '', default: ''
             @ (case max_of fps_options of None \<Rightarrow> [] | Some m \<Rightarrow> str_of b m) @ ''): '')"

text \<open>
  The third loop, on a list of rates that is not empty (\<open>split\<close> never returns an empty
  list). The value returned for a typed rate is the text as typed.
\<close>

fun choose_fps ::
  "builtins \<Rightarrow> int list \<Rightarrow> answer list \<Rightarrow> event list \<times> (stop + string) \<times> answer list" where
  "choose_fps b fps_options [] =
     ([fps_prompt b fps_options], Inl (Raise (Exception ''EOF when reading a line'')), [])"
| "choose_fps b fps_options (Signal r # rest) =
     ([fps_prompt b fps_options], Inl (Signalled r), rest)"
| "choose_fps b fps_options (Typed text # rest) =
     (let fps_input = strip text in
      if fps_input = [] then
        (case max_of fps_options of
           None \<Rightarrow>
             ([fps_prompt b fps_options],
              Inl (Raise (Exception ''max() arg is an empty sequence'')), rest)
         | Some m \<Rightarrow> ([fps_prompt b fps_options], Inr (str_of b m), rest))
      else
        (case int_of b fps_input of
           None \<Rightarrow>
             (case choose_fps b fps_options rest of
                (evs, res, rest') \<Rightarrow>
                  (fps_prompt b fps_options # Print ''[!] Please enter a valid number'' # evs,
                   res, rest'))
         | Some fps_val \<Rightarrow>
             if fps_val \<in> set fps_options then
               ([fps_prompt b fps_options], Inr fps_input, rest)
             else
               (case choose_fps b fps_options rest of
                  (evs, res, rest') \<Rightarrow>
                    (fps_prompt b fps_options
                     # Print (''[!] Invalid FPS. Available: '' @ show_list b fps_options)
                     # evs, res, rest'))))"

text \<open>The lines printed before the second loop.\<close>

definition list_resolutions ::
  "builtins \<Rightarrow> string \<Rightarrow> camera \<Rightarrow> event list" where
  "list_resolutions b selected_camera camera_info =
     (let resolutions = info_resolutions camera_info;
          other_resolutions = filter (\<lambda>r. r \<notin> set common_resolutions) resolutions;
          start_idx =
            int (length (filter (\<lambda>r. r \<in> set resolutions) common_resolutions)) + 1
      in
      [Print (''\<newline>[*] Available resolutions for camera '' @ selected_camera @ '' (''
              @ info_type camera_info @ ''):''),
       Print ''  Common resolutions:'']
      @ concat (map (\<lambda>(i, r). if r \<in> set resolutions
                                  then [Print (''    '' @ str_of b (int i + 1) @ '': '' @ r)]
                                  else [])
                    (enumerate 0 common_resolutions))
      @ (if other_resolutions \<noteq> [] then
           Print ''  Other resolutions:''
           # map (\<lambda>(i, r). Print (''    '' @ str_of b (start_idx + int i) @ '': '' @ r))
                 (enumerate 0 other_resolutions)
         else []))"

text \<open>
  \<open>select_camera\<close>: the events, the triple returned or the way the function stopped, and
  what is left of the console. With an empty dictionary the function prints one line
  and returns the fixed configuration.
\<close>

definition select_camera ::
  "builtins \<Rightarrow> cameras \<Rightarrow> answer list
     \<Rightarrow> event list \<times> (stop + string \<times> string \<times> string) \<times> answer list" where
  "select_camera b cameras console =
     (if cameras = [] then
        ([Print ''[!] No cameras found''], Inr (''0'', ''1920x1080'', DEFAULT_FPS), console)
      else
        (let listing =
               Print ''\<newline>[*] Available cameras:''
               # map (\<lambda>(camera_id, info).
                        Print (''  '' @ camera_id @ '': '' @ info_type info
                               @ '' camera (default: '' @ info_default_resolution info
                               @ '', fps: ['' @ info_fps_range info @ ''])''))
                     cameras
         in
         case choose_camera cameras console of
           (evs1, Inl s, console1) \<Rightarrow> (listing @ evs1, Inl s, console1)
         | (evs1, Inr selected_camera, console1) \<Rightarrow>
             (case map_of cameras selected_camera of
                None \<Rightarrow> (listing @ evs1, Inl (Raise (Exception selected_camera)), console1)
              | Some camera_info \<Rightarrow>
                  (let resolutions = info_resolutions camera_info;
                       other_resolutions =
                         filter (\<lambda>r. r \<notin> set common_resolutions) resolutions;
                       all_available =
                         filter (\<lambda>r. r \<in> set resolutions) common_resolutions
                         @ other_resolutions;
                       evs2 = list_resolutions b selected_camera camera_info
                   in
                   case choose_resolution b resolutions all_available console1 of
                     (evs3, Inl s, console2) \<Rightarrow> (listing @ evs1 @ evs2 @ evs3, Inl s, console2)
                   | (evs3, Inr selected_resolution, console2) \<Rightarrow>
                       (case those (map (\<lambda>x. int_of b (strip x))
                                        (split (CHR '','') (info_fps_range camera_info))) of
                          None \<Rightarrow>
                            (listing @ evs1 @ evs2 @ evs3,
                             Inl (Raise (Exception ''invalid literal for int() with base 10'')),
                             console2)
                        | Some fps_options \<Rightarrow>
                            (case choose_fps b fps_options console2 of
                               (evs5, Inl s, console3) \<Rightarrow>
                                 (listing @ evs1 @ evs2 @ evs3
                                  @ [Print (''\<newline>[*] Available FPS rates: ''
                                            @ show_list b fps_options)]
                                  @ evs5, Inl s, console3)
                             | (evs5, Inr selected_fps, console3) \<Rightarrow>
                                 (listing @ evs1 @ evs2 @ evs3
                                  @ [Print (''\<newline>[*] Available FPS rates: ''
                                            @ show_list b fps_options)]
                                  @ evs5,
                                  Inr (selected_camera, selected_resolution, selected_fps),
                                  console3)))))))"

subsection \<open>\<open>select_microphone_source\<close>\<close>

definition MIC_SOURCES :: "(string \<times> string \<times> string) list" where
  "MIC_SOURCES =
     [(''1'', ''mic'', ''Standard microphone''),
      (''2'', ''mic-unprocessed'', ''Unprocessed (raw) microphone''),
      (''3'', ''mic-camcorder'', ''Microphone tuned for video recording''),
      (''4'', ''mic-voice-recognition'', ''Microphone tuned for voice recognition''),
      (''5'', ''mic-voice-communication'',
       ''Microphone tuned for voice communications (voice calls)'')]"

fun choose_microphone ::
  "builtins \<Rightarrow> answer list \<Rightarrow> event list \<times> (stop + string) \<times> answer list" where
  "choose_microphone b [] =
     ([Prompt (''\<newline>Select microphone source (1-'' @ str_of b (int (length MIC_SOURCES))
               @ '', default: 3): '')],
      Inl (Raise (Exception ''EOF when reading a line'')), [])"
| "choose_microphone b (Signal r # rest) =
     ([Prompt (''\<newline>Select microphone source (1-'' @ str_of b (int (length MIC_SOURCES))
               @ '', default: 3): '')],
      Inl (Signalled r), rest)"
| "choose_microphone b (Typed text # rest) =
     (let prompt = Prompt (''\<newline>Select microphone source (1-''
                           @ str_of b (int (length MIC_SOURCES)) @ '', default: 3): '');
          mic_input = strip text
      in
      if mic_input = [] then ([prompt], Inr ''mic-camcorder'', rest)
      else
        (case map_of MIC_SOURCES mic_input of
           Some (source, description) \<Rightarrow> ([prompt], Inr source, rest)
         | None \<Rightarrow>
             (case choose_microphone b rest of
                (evs, res, rest') \<Rightarrow>
                  (prompt
                   # Print (''[!] Invalid selection. Choose 1-''
                            @ str_of b (int (length MIC_SOURCES)))
                   # evs, res, rest'))))"

definition select_microphone_source ::
  "builtins \<Rightarrow> answer list \<Rightarrow> event list \<times> (stop + string) \<times> answer list" where
  "select_microphone_source b console =
     (case choose_microphone b console of
        (evs, res, rest) \<Rightarrow>
          (Print ''\<newline>[*] Available microphone sources:''
           # map (\<lambda>(key, source, description).
                    Print (''  '' @ key @ '': '' @ source @ '' - '' @ description))
                 MIC_SOURCES
           @ evs, res, rest))"

section \<open>Setup helpers\<close>

subsection \<open>\<open>get_camera_info\<close>\<close>

text \<open>
  \<open>parse_camera_info\<close>, which matches regular expressions against the listing, is a
  parameter \<open>parse\<close> here: nothing below depends on which dictionary it builds.
\<close>

definition get_camera_info ::
  "(string \<Rightarrow> cameras) \<Rightarrow> run_result \<Rightarrow> event list \<times> cameras option" where
  "get_camera_info parse answer =
     (case answer of
        Completed out err \<Rightarrow>
          if contains ''Could not find any ADB device'' err then
            ([Print ''[*] Getting camera information...'',
              Print ''[!] Error output: ERROR: Could not find any ADB device''], None)
          else ([Print ''[*] Getting camera information...''], Some (parse out))
      | TimeoutExpired \<Rightarrow>
          ([Print ''[*] Getting camera information...'',
            Print ''[!] Timeout getting camera information''], None)
      | CalledProcessError e err \<Rightarrow>
          ([Print ''[*] Getting camera information...'',
            Print (''[!] Failed to get camera information: '' @ e)]
           @ (if err \<noteq> [] then
                Print (''[!] Error output: '' @ err)
                # (if contains ''Could not find any ADB device'' err
                   then [Print ''[!] No ADB device found - cannot proceed''] else [])
              else []),
           None)
      | FileNotFoundError e \<Rightarrow>
          ([Print ''[*] Getting camera information...'',
            Print (''[!] Error getting camera information: '' @ e)], None)
      | OtherError e \<Rightarrow>
          ([Print ''[*] Getting camera information...'',
            Print (''[!] Error getting camera information: '' @ e)], None))"

subsection \<open>\<open>load_v4l2loopback\<close>\<close>

text \<open>
  \<open>check_v4l2loopback\<close> catches \<open>CalledProcessError\<close> only: any other exception of the call
  of \<open>lsmod\<close> leaves the function.
\<close>

definition check_v4l2loopback :: "run_result \<Rightarrow> exn + bool" where
  "check_v4l2loopback answer =
     (case answer of
        Completed out err \<Rightarrow> Inr (contains ''v4l2loopback'' out)
      | CalledProcessError e err \<Rightarrow> Inr False
      | TimeoutExpired \<Rightarrow> Inl (Exception ''timed out'')
      | FileNotFoundError e \<Rightarrow> Inl (Exception e)
      | OtherError e \<Rightarrow> Inl (Exception e))"

text \<open>
  \<open>run_command(cmd)\<close> without captured output: the shell runs the command; \<open>None\<close> is exit
  status zero, \<open>Some e\<close> is \<open>CalledProcessError\<close> with message \<open>e\<close>.
\<close>

definition run_command :: "string \<Rightarrow> string option \<Rightarrow> event list \<times> bool" where
  "run_command cmd answer =
     (case answer of
        None \<Rightarrow> ([Run_shell cmd], True)
      | Some e \<Rightarrow>
          ([Run_shell cmd, Print (''[!] Command failed: '' @ cmd), Print (''[!] Error: '' @ e)],
           False))"

definition modprobe_command :: string where
  "modprobe_command =
     ''sudo modprobe v4l2loopback devices=1 video_nr=0 card_label='' @ [CHR 0x22] @ CARD_LABEL
     @ [CHR 0x22] @ '' exclusive_caps=1''"

definition load_v4l2loopback ::
  "run_result \<Rightarrow> string option \<Rightarrow> event list \<times> (exn + bool)" where
  "load_v4l2loopback lsmod_answer modprobe_answer =
     (case check_v4l2loopback lsmod_answer of
        Inl e \<Rightarrow> ([], Inl e)
      | Inr loaded \<Rightarrow>
          if \<not> loaded then
            (case run_command modprobe_command modprobe_answer of
               (evs, ok) \<Rightarrow>
                 if \<not> ok then
                   (Print ''[+] Loading v4l2loopback module...'' # evs
                    @ [Print ''[!] Failed to load v4l2loopback module''], Inr False)
                 else (Print ''[+] Loading v4l2loopback module...'' # evs, Inr True))
          else ([Print ''[i] v4l2loopback already loaded.''], Inr True))"

subsection \<open>\<open>setup_virtual_mic\<close>\<close>

definition load_module_command :: string where
  "load_module_command =
     ''pactl load-module module-pipe-source source_name='' @ [CHR 0x22] @ VIRTUAL_MIC_SOURCE
     @ [CHR 0x22] @ '' channels=2 format=s16le rate=48000 file='' @ [CHR 0x22] @ PIPE_PATH
     @ [CHR 0x22]"

text \<open>
  The removal of an existing pipe is outside any \<open>try\<close>: its exception leaves the
  function. \<open>os.mkfifo\<close> failing and \<open>pactl\<close> exiting with a non-zero status make the
  function return false; on success \<open>MODULE_ID\<close> is the stripped output of \<open>pactl\<close>.
\<close>

definition setup_virtual_mic ::
  "string option \<Rightarrow> string option \<Rightarrow> run_result \<Rightarrow> world
     \<Rightarrow> event list \<times> (exn + bool) \<times> world" where
  "setup_virtual_mic remove_answer mkfifo_answer load_answer w =
     (let banner = Print (''[+] Setting up PulseAudio virtual mic: '' @ VIRTUAL_MIC_SOURCE);
          removal = (if pipe_exists w then [Remove PIPE_PATH] else [])
      in
      case (if pipe_exists w then remove_answer else None) of
        Some e \<Rightarrow> (banner # removal, Inl (Exception e), w)
      | None \<Rightarrow>
        (case mkfifo_answer of
           Some e \<Rightarrow>
             (banner # removal @ [Mkfifo PIPE_PATH, Print (''[!] Failed to create pipe: '' @ e)],
              Inr False, w\<lparr>pipe_exists := False\<rparr>)
         | None \<Rightarrow>
             (case load_answer of
                Completed out err \<Rightarrow>
                  (banner # removal @ [Mkfifo PIPE_PATH, Run_shell load_module_command],
                   Inr True, w\<lparr>pipe_exists := True, MODULE_ID := Some (strip out)\<rparr>)
              | CalledProcessError e err \<Rightarrow>
                  (banner # removal
                   @ [Mkfifo PIPE_PATH, Run_shell load_module_command,
                      Print (''[!] Failed to load PulseAudio module: '' @ e)],
                   Inr False, w\<lparr>pipe_exists := True\<rparr>)
              | TimeoutExpired \<Rightarrow>
                  (banner # removal @ [Mkfifo PIPE_PATH, Run_shell load_module_command],
                   Inl (Exception ''timed out''), w\<lparr>pipe_exists := True\<rparr>)
              | FileNotFoundError e \<Rightarrow>
                  (banner # removal @ [Mkfifo PIPE_PATH, Run_shell load_module_command],
                   Inl (Exception e), w\<lparr>pipe_exists := True\<rparr>)
              | OtherError e \<Rightarrow>
                  (banner # removal @ [Mkfifo PIPE_PATH, Run_shell load_module_command],
                   Inl (Exception e), w\<lparr>pipe_exists := True\<rparr>))))"

subsection \<open>\<open>start_scrcpy_video\<close> and \<open>start_scrcpy_audio\<close>\<close>

text \<open>
  \<open>Popen\<close> returns a handle or raises an exception of class \<open>Exception\<close>, which the function
  catches. On success the handle is appended to \<open>scrcpy_processes\<close> and the launcher
  thread, which is given the number of its process, to \<open>monitoring_threads\<close>. What the
  monitors do with the output of the process is \<open>read_stream\<close>; the main thread sees it
  only through \<open>device_disconnected\<close>.
\<close>

definition video_command :: "string \<Rightarrow> string \<Rightarrow> string \<Rightarrow> string list" where
  "video_command camera_id resolution fps =
     [''scrcpy'', ''--video-source=camera'', ''--camera-id='' @ camera_id, ''--no-audio'',
      ''--v4l2-sink='' @ V4L2_DEVICE, ''--camera-size='' @ resolution,
      ''--camera-fps='' @ fps, ''--port'', ''27183'', ''--no-window'']"

definition audio_command :: "string \<Rightarrow> string list" where
  "audio_command mic_source =
     [''scrcpy'', ''--no-video'', ''--no-playback'', ''--audio-source='' @ mic_source,
      ''--audio-codec=raw'', ''--no-window'', ''--record='' @ PIPE_PATH,
      ''--port'', ''27184'', ''--record-format=wav'']"

definition start_scrcpy_video ::
  "string \<Rightarrow> string \<Rightarrow> string \<Rightarrow> string + nat \<Rightarrow> world
     \<Rightarrow> event list \<times> nat option \<times> world" where
  "start_scrcpy_video camera_id resolution fps answer w =
     (let evs = [Print (''[+] Starting scrcpy (video) -> '' @ V4L2_DEVICE),
                 Print (''    Camera: '' @ camera_id @ '', Resolution: '' @ resolution
                        @ '', FPS: '' @ fps),
                 Popen (video_command camera_id resolution fps)]
      in case answer of
           Inl e \<Rightarrow> (evs @ [Print (''[!] Failed to start scrcpy video: '' @ e)], None, w)
         | Inr proc \<Rightarrow>
             (evs, Some proc,
              w\<lparr>scrcpy_processes := scrcpy_processes w @ [proc],
                monitoring_threads := monitoring_threads w @ [proc]\<rparr>))"

definition start_scrcpy_audio ::
  "string \<Rightarrow> string + nat \<Rightarrow> world \<Rightarrow> event list \<times> nat option \<times> world" where
  "start_scrcpy_audio mic_source answer w =
     (let evs = [Print (''[+] Starting scrcpy (audio) -> '' @ VIRTUAL_MIC_SOURCE),
                 Print (''    Microphone source: '' @ mic_source),
                 Popen (audio_command mic_source)]
      in case answer of
           Inl e \<Rightarrow> (evs @ [Print (''[!] Failed to start scrcpy audio: '' @ e)], None, w)
         | Inr proc \<Rightarrow>
             (evs, Some proc,
              w\<lparr>scrcpy_processes := scrcpy_processes w @ [proc],
                monitoring_threads := monitoring_threads w @ [proc]\<rparr>))"

section \<open>\<open>signal_handler\<close>, \<open>main\<close> and the end of the program\<close>

text \<open>
  \<open>signal_handler\<close>: \<open>cleanup\<close>, then \<open>sys.exit(0)\<close>. The function always ends by an
  exception: that of \<open>cleanup\<close> if it raised, \<open>SystemExit(0)\<close> otherwise.
\<close>

definition signal_handler :: "responses \<Rightarrow> world \<Rightarrow> event list \<times> exn \<times> world" where
  "signal_handler r w =
     (case cleanup r w of
        (evs, Inl e) \<Rightarrow> (evs, e, w)
      | (evs, Inr w') \<Rightarrow> (evs, SystemExit 0, w'))"

text \<open>
  Everything outside the program that a run of \<open>main\<close> meets: the results of the queries
  and commands, the console, the handles returned by \<open>Popen\<close>, what each iteration of
  the waiting loop observes, and the answers to the library calls of the \<open>cleanup\<close> at the
  end of \<open>main\<close> and of the one run by \<open>atexit\<close>.
\<close>

datatype observation =
    Tick bool "nat \<Rightarrow> int option"
  | Loop_signal responses

record environment =
  adb_devices :: run_result
  camera_sizes :: run_result
  console :: "answer list"
  stale_pipe :: bool
  lsmod :: run_result
  modprobe :: "string option"
  remove_stale_pipe :: "string option"
  mkfifo :: "string option"
  load_module :: run_result
  popen_video :: "string + nat"
  popen_audio :: "string + nat"
  observations :: "observation list"
  at_shutdown :: responses
  at_exit :: responses

text \<open>How a function call ended, or that it has not ended yet.\<close>

datatype ending = Returned | Raised exn | Running

text \<open>
  The inner \<open>for\<close> loop of the waiting loop: it walks a copy of \<open>scrcpy_processes\<close> and
  removes from the list itself every process whose \<open>poll()\<close> gives an exit code.
\<close>

fun poll_all ::
  "builtins \<Rightarrow> (nat \<Rightarrow> int option) \<Rightarrow> nat list \<Rightarrow> nat list \<Rightarrow> event list \<times> nat list" where
  "poll_all b polls [] registry = ([], registry)"
| "poll_all b polls (proc # rest) registry =
     (case polls proc of
        None \<Rightarrow> poll_all b polls rest registry
      | Some returncode \<Rightarrow>
          (case poll_all b polls rest (remove1 proc registry) of
             (evs, registry') \<Rightarrow>
               (Print (''[!] A scrcpy process has terminated unexpectedly (exit code: ''
                       @ str_of b returncode @ '')'') # evs,
                registry')))"

text \<open>
  The waiting loop, one observation per iteration. \<open>Tick newly_set polls\<close> is an
  iteration that runs: \<open>newly_set\<close> tells whether a monitor has set \<open>device_disconnected\<close>
  since the last look (once set, the event stays set), \<open>polls\<close> is what \<open>poll()\<close> returns
  for each process. \<open>Loop_signal\<close> is a termination signal arriving in the loop, Ctrl+C
  included: with \<open>signal_handler\<close> installed for SIGINT, KeyboardInterrupt is not raised,
  and the clause \<open>except KeyboardInterrupt\<close> of the loop is never entered. When the
  observations run out the loop is still going.
\<close>

datatype loop_end = Left_loop | Stopped responses | Still_running

fun supervise ::
  "builtins \<Rightarrow> world \<Rightarrow> observation list \<Rightarrow> event list \<times> loop_end \<times> world" where
  "supervise b w [] = ([], Still_running, w)"
| "supervise b w (Loop_signal r # obs) = ([], Stopped r, w)"
| "supervise b w (Tick newly_set polls # obs) =
     (let w1 = w\<lparr>device_disconnected := device_disconnected w \<or> newly_set\<rparr> in
      if device_disconnected w1 then
        ([Print ''[!] Device disconnection detected - stopping...''], Left_loop, w1)
      else
        (case poll_all b polls (scrcpy_processes w1) (scrcpy_processes w1) of
           (evs, registry) \<Rightarrow>
             (let w2 = w1\<lparr>scrcpy_processes := registry\<rparr> in
              if registry = [] then
                (evs @ [Print ''[!] All scrcpy processes have terminated''], Left_loop, w2)
              else
                (case supervise b w2 obs of
                   (evs', e, w') \<Rightarrow> (evs @ evs', e, w')))))"

text \<open>
  \<open>main\<close> in four parts, each a contiguous block of the source. The first part runs
  from the banner to the prompt \<open>Press Enter to continue\<close> and yields the selected
  configuration and what is left of the console.
\<close>

type_synonym configuration = "string \<times> string \<times> string \<times> string"

definition setup_failed_help :: "event list" where
  "setup_failed_help =
     [Print ''\<newline>[!] SETUP FAILED: No ADB devices found'',
      Print ''[*] Please ensure:'',
      Print ''    1. Your Android device is connected via USB'',
      Print ''    2. USB debugging is enabled on your device'',
      Print ''    3. You have authorized this computer on your device'',
      Print ''    4. ADB is properly installed'',
      Print (''\<newline>[*] Try running '' @ [CHR 0x27] @ ''adb devices'' @ [CHR 0x27]
             @ '' manually to troubleshoot'')]"

definition camera_failed_help :: "event list" where
  "camera_failed_help =
     [Print ''\<newline>[!] SETUP FAILED: Could not get camera information'',
      Print ''[*] This usually means:'',
      Print ''    1. No ADB device is connected'',
      Print (''    2. The device doesn'' @ [CHR 0x27] @ ''t support camera access via scrcpy''),
      Print ''    3. Camera permissions are not granted'']"

text \<open>The \<open>if not cameras\<close> of \<open>main\<close>: the fixed configuration, or \<open>select_camera\<close>.\<close>

definition main_camera_choice ::
  "builtins \<Rightarrow> cameras \<Rightarrow> answer list
     \<Rightarrow> event list \<times> (stop + string \<times> string \<times> string) \<times> answer list" where
  "main_camera_choice b cameras cons =
     (if cameras = [] then
        ([Print ''[!] No cameras found on the device''],
         Inr (''0'', ''1920x1080'', DEFAULT_FPS), cons)
      else select_camera b cameras cons)"

definition press_enter :: "answer list \<Rightarrow> event list \<times> (stop + unit)" where
  "press_enter cons =
     (case cons of
        [] \<Rightarrow> ([Prompt ''\<newline>Press Enter to continue with setup...''],
               Inl (Raise (Exception ''EOF when reading a line'')))
      | Typed text # rest \<Rightarrow>
          ([Prompt ''\<newline>Press Enter to continue with setup...''], Inr ())
      | Signal r # rest \<Rightarrow>
          ([Prompt ''\<newline>Press Enter to continue with setup...''], Inl (Signalled r)))"

definition main_configure ::
  "builtins \<Rightarrow> (string \<Rightarrow> cameras) \<Rightarrow> environment
     \<Rightarrow> event list \<times> (stop + configuration)" where
  "main_configure b parse env =
     (let banner = [Print ''[*] AdbCam Setup - Enhanced Version'',
                    Print ''[*] =====================================''] in
      case check_adb_devices (adb_devices env) of
        (evs1, False) \<Rightarrow> (banner @ evs1 @ setup_failed_help, Inl (Raise (SystemExit 1)))
      | (evs1, True) \<Rightarrow>
          (case get_camera_info parse (camera_sizes env) of
             (evs2, None) \<Rightarrow>
               (banner @ evs1 @ evs2 @ camera_failed_help, Inl (Raise (SystemExit 1)))
           | (evs2, Some cameras) \<Rightarrow>
               (case main_camera_choice b cameras (console env) of
                  (evs3, Inl s, cons1) \<Rightarrow> (banner @ evs1 @ evs2 @ evs3, Inl s)
                | (evs3, Inr (camera_id, resolution, fps), cons1) \<Rightarrow>
                    (case select_microphone_source b cons1 of
                       (evs4, Inl s, cons2) \<Rightarrow> (banner @ evs1 @ evs2 @ evs3 @ evs4, Inl s)
                     | (evs4, Inr mic_source, cons2) \<Rightarrow>
                         (case press_enter cons2 of
                            (evs5, res) \<Rightarrow>
                              (banner @ evs1 @ evs2 @ evs3 @ evs4
                               @ [Print ''\<newline>[*] Configuration selected:'',
                                  Print (''    Camera ID: '' @ camera_id),
                                  Print (''    Resolution: '' @ resolution),
                                  Print (''    FPS: '' @ fps),
                                  Print (''    Microphone: '' @ mic_source),
                                  Print (''    V4L2 Device: '' @ V4L2_DEVICE)]
                               @ evs5,
                               case res of
                                 Inl s \<Rightarrow> Inl s
                               | Inr u \<Rightarrow> Inr (camera_id, resolution, fps, mic_source)))))))"

text \<open>
  The second part: the loopback module and the virtual microphone. It starts in the
  world of a fresh program: nothing recorded, nothing tracked.
\<close>

definition initial_world :: "environment \<Rightarrow> world" where
  "initial_world env =
     \<lparr>MODULE_ID = None, scrcpy_processes = [], monitoring_threads = [],
      device_disconnected = False, pipe_exists = stale_pipe env\<rparr>"

definition main_prepare :: "environment \<Rightarrow> event list \<times> (exn + unit) \<times> world" where
  "main_prepare env =
     (case load_v4l2loopback (lsmod env) (modprobe env) of
        (evs1, Inl e) \<Rightarrow> (evs1, Inl e, initial_world env)
      | (evs1, Inr False) \<Rightarrow>
          (evs1 @ [Print ''[!] Failed to setup v4l2loopback''], Inl (SystemExit 1),
           initial_world env)
      | (evs1, Inr True) \<Rightarrow>
          (case setup_virtual_mic (remove_stale_pipe env) (mkfifo env) (load_module env)
                  (initial_world env) of
             (evs2, Inl e, w) \<Rightarrow> (evs1 @ evs2, Inl e, w)
           | (evs2, Inr False, w) \<Rightarrow>
               (evs1 @ evs2 @ [Print ''[!] Failed to setup virtual microphone''],
                Inl (SystemExit 1), w)
           | (evs2, Inr True, w) \<Rightarrow> (evs1 @ evs2, Inr (), w)))"

text \<open>The third part: the two launches, two seconds apart.\<close>

definition main_launch ::
  "environment \<Rightarrow> configuration \<Rightarrow> world \<Rightarrow> event list \<times> (exn + unit) \<times> world" where
  "main_launch env config w =
     (case config of
        (camera_id, resolution, fps, mic_source) \<Rightarrow>
          (case start_scrcpy_video camera_id resolution fps (popen_video env) w of
             (evs1, None, w1) \<Rightarrow>
               (evs1 @ [Print ''[!] Failed to start video capture''], Inl (SystemExit 1), w1)
           | (evs1, Some video_proc, w1) \<Rightarrow>
               (case start_scrcpy_audio mic_source (popen_audio env) w1 of
                  (evs2, None, w2) \<Rightarrow>
                    (evs1 @ evs2 @ [Print ''[!] Failed to start audio capture''],
                     Inl (SystemExit 1), w2)
                | (evs2, Some audio_proc, w2) \<Rightarrow> (evs1 @ evs2, Inr (), w2))))"

text \<open>
  The fourth part: the banner, the waiting loop, and \<open>cleanup\<close>. A signal in the loop
  runs \<open>signal_handler\<close>, whose exception no handler of \<open>main\<close> catches.
\<close>

definition setup_complete :: "event list" where
  "setup_complete =
     [Print [], Print (replicate 60 (CHR ''='')), Print ''[*] Setup complete!'',
      Print (''[*] Camera is available at '' @ V4L2_DEVICE @ '' (select '' @ [CHR 0x27]
             @ CARD_LABEL @ [CHR 0x27] @ '' in video apps)''),
      Print (''[*] Android mic is available as '' @ [CHR 0x27] @ VIRTUAL_MIC_SOURCE
             @ [CHR 0x27] @ '' (select as microphone in apps)''),
      Print ''[*] Press Ctrl+C to stop and clean up'',
      Print ''[*] Monitoring for device disconnection...'',
      Print (replicate 60 (CHR ''='')), Print []]"

definition main_run ::
  "builtins \<Rightarrow> environment \<Rightarrow> world \<Rightarrow> event list \<times> ending \<times> world" where
  "main_run b env w =
     (case supervise b w (observations env) of
        (evs, Still_running, w1) \<Rightarrow> (setup_complete @ evs, Running, w1)
      | (evs, Stopped r, w1) \<Rightarrow>
          (case signal_handler r w1 of
             (evs', e, w2) \<Rightarrow> (setup_complete @ evs @ evs', Raised e, w2))
      | (evs, Left_loop, w1) \<Rightarrow>
          (case cleanup (at_shutdown env) w1 of
             (evs', Inl e) \<Rightarrow> (setup_complete @ evs @ evs', Raised e, w1)
           | (evs', Inr w2) \<Rightarrow> (setup_complete @ evs @ evs', Returned, w2)))"

definition main ::
  "builtins \<Rightarrow> (string \<Rightarrow> cameras) \<Rightarrow> environment \<Rightarrow> event list \<times> ending \<times> world" where
  "main b parse env =
     (case main_configure b parse env of
        (evs1, Inl (Raise e)) \<Rightarrow> (evs1, Raised e, initial_world env)
      | (evs1, Inl (Signalled r)) \<Rightarrow>
          (case signal_handler r (initial_world env) of
             (evs', e, w) \<Rightarrow> (evs1 @ evs', Raised e, w))
      | (evs1, Inr config) \<Rightarrow>
          (case main_prepare env of
             (evs2, Inl e, w) \<Rightarrow> (evs1 @ evs2, Raised e, w)
           | (evs2, Inr u, w) \<Rightarrow>
               (case main_launch env config w of
                  (evs3, Inl e, w1) \<Rightarrow> (evs1 @ evs2 @ evs3, Raised e, w1)
                | (evs3, Inr u', w1) \<Rightarrow>
                    (case main_run b env w1 of
                       (evs4, e, w2) \<Rightarrow> (evs1 @ evs2 @ evs3 @ evs4, e, w2)))))"

text \<open>
  The end of the program. The exit status is zero when \<open>main\<close> returned, the argument of
  \<open>sys.exit\<close> when \<open>SystemExit\<close> was raised, 1 when another exception was left uncaught
  (the interpreter prints the traceback), and 130 for an uncaught KeyboardInterrupt,
  by which no run of this program ends. On
  the way out the interpreter runs the function registered with \<open>atexit\<close>, which is
  \<open>cleanup\<close>; what that call raises is reported and changes nothing.
\<close>

fun exit_status :: "ending \<Rightarrow> int option" where
  "exit_status Returned = Some 0"
| "exit_status (Raised (SystemExit n)) = Some n"
| "exit_status (Raised (Exception e)) = Some 1"
| "exit_status (Raised KeyboardInterrupt) = Some 130"
| "exit_status Running = None"

definition run_program ::
  "builtins \<Rightarrow> (string \<Rightarrow> cameras) \<Rightarrow> environment \<Rightarrow> event list \<times> int option" where
  "run_program b parse env =
     (case main b parse env of
        (evs, Running, w) \<Rightarrow> (evs, None)
      | (evs, e, w) \<Rightarrow> (evs @ fst (cleanup (at_exit env) w), exit_status e))"

subsection \<open>The failures named by the specification\<close>

text \<open>
  The conditions under which the specification allows a non-zero exit status, each read
  off the environment: no device reachable, camera information unavailable, the loopback
  module or the virtual microphone not set up (the helper returned false or raised),
  and a launch failure of either capture process.
\<close>

definition no_device_reachable :: "environment \<Rightarrow> bool" where
  "no_device_reachable env = (\<not> snd (check_adb_devices (adb_devices env)))"

definition camera_info_unavailable :: "(string \<Rightarrow> cameras) \<Rightarrow> environment \<Rightarrow> bool" where
  "camera_info_unavailable parse env = (snd (get_camera_info parse (camera_sizes env)) = None)"

definition loopback_setup_failed :: "environment \<Rightarrow> bool" where
  "loopback_setup_failed env = (snd (load_v4l2loopback (lsmod env) (modprobe env)) \<noteq> Inr True)"

definition virtual_mic_setup_failed :: "environment \<Rightarrow> bool" where
  "virtual_mic_setup_failed env =
     (fst (snd (setup_virtual_mic (remove_stale_pipe env) (mkfifo env) (load_module env)
                  (initial_world env))) \<noteq> Inr True)"

definition launch_failed :: "environment \<Rightarrow> bool" where
  "launch_failed env = (isl (popen_video env) \<or> isl (popen_audio env))"

definition startup_or_launch_failure :: "(string \<Rightarrow> cameras) \<Rightarrow> environment \<Rightarrow> bool" where
  "startup_or_launch_failure parse env =
     (no_device_reachable env \<or> camera_info_unavailable parse env
      \<or> loopback_setup_failed env \<or> virtual_mic_setup_failed env \<or> launch_failed env)"

text \<open>
  The interactive configuration ended by an exception that is not \<open>SystemExit\<close>: the end
  of the input at a prompt, or an exception raised on the data of the selected camera
  (an empty list of resolutions, a list of rates that is not numeric).
\<close>

definition configuration_raised ::
  "builtins \<Rightarrow> (string \<Rightarrow> cameras) \<Rightarrow> environment \<Rightarrow> bool" where
  "configuration_raised b parse env =
     (case snd (main_configure b parse env) of
        Inl (Raise (Exception e)) \<Rightarrow> True
      | _ \<Rightarrow> False)"

text \<open>
  The answers to the library calls of every \<open>cleanup\<close> that a shutdown from the waiting
  loop may run: the one at the end of \<open>main\<close> and the one of each signal.
\<close>

fun shutdown_answers :: "responses \<Rightarrow> observation list \<Rightarrow> responses list" where
  "shutdown_answers r [] = [r]"
| "shutdown_answers r (Loop_signal r' # obs) = r' # shutdown_answers r obs"
| "shutdown_answers r (ob # obs) = shutdown_answers r obs"

definition threads_finished :: "environment \<Rightarrow> world \<Rightarrow> bool" where
  "threads_finished env w =
     list_all (\<lambda>r. \<not> list_ex (on_is_alive r) (monitoring_threads w))
       (shutdown_answers (at_shutdown env) (observations env))"

subsection \<open>Example runs\<close>

text \<open>
  A decimal reading of \<open>int\<close> and \<open>str\<close> for the examples: digits with an optional sign.
\<close>

fun digits_of :: "nat \<Rightarrow> string" where
  "digits_of n =
     (if n < 10 then [char_of (48 + n)]
      else digits_of (n div 10) @ [char_of (48 + n mod 10)])"

definition show_int :: "int \<Rightarrow> string" where
  "show_int n = (if n < 0 then CHR ''-'' # digits_of (nat (- n)) else digits_of (nat n))"

fun read_nat :: "nat \<Rightarrow> string \<Rightarrow> nat option" where
  "read_nat acc [] = Some acc"
| "read_nat acc (c # cs) =
     (if (48::nat) \<le> of_char c \<and> (of_char c :: nat) \<le> 57
      then read_nat (10 * acc + (of_char c - 48)) cs else None)"

definition read_int :: "string \<Rightarrow> int option" where
  "read_int s =
     (case s of
        [] \<Rightarrow> None
      | c # cs \<Rightarrow>
          if c = CHR ''-'' \<and> cs \<noteq> [] then map_option (\<lambda>n. - int n) (read_nat 0 cs)
          else if c = CHR ''+'' \<and> cs \<noteq> [] then map_option int (read_nat 0 cs)
          else map_option int (read_nat 0 s))"

definition decimal :: builtins where
  "decimal = \<lparr>int_of = read_int, str_of = show_int\<rparr>"

text \<open>
  An environment in which every step of the startup succeeds; the device reports no
  camera, the operator accepts the defaults, and after one quiet iteration of the
  waiting loop a monitor reports the disconnection. Then the same with a console at its
  end and one camera in the listing, and a parser that finds that camera.
\<close>

definition back_camera :: cameras where
  "back_camera =
     [(''0'', \<lparr>info_type = ''back'', info_default_resolution = ''4000x3000'',
              info_fps_range = ''15, 30, 60'',
              info_resolutions = [''4000x3000'', ''1920x1080'']\<rparr>)]"

definition smooth_run :: environment where
  "smooth_run =
     \<lparr>adb_devices = Completed one_ready_one_offline [],
      camera_sizes = Completed [] [],
      console = [Typed [], Typed []],
      stale_pipe = False,
      lsmod = Completed ''v4l2loopback 49152 0'' [],
      modprobe = None,
      remove_stale_pipe = None,
      mkfifo = None,
      load_module = Completed ''42\<newline>'' [],
      popen_video = Inr 1,
      popen_audio = Inr 2,
      observations = [Tick False (\<lambda>p. None), Tick True (\<lambda>p. None)],
      at_shutdown = all_return,
      at_exit = all_return\<rparr>"

definition closed_console :: environment where
  "closed_console = smooth_run\<lparr>console := []\<rparr>"

text \<open>The first environment again, with Ctrl+C at the first prompt.\<close>

definition interrupted_prompt :: environment where
  "interrupted_prompt = smooth_run\<lparr>console := [Signal all_return]\<rparr>"

text \<open>
  The world in which \<open>main\<close> enters the waiting loop, when the configuration, the two
  setup steps and the two launches have all succeeded.
\<close>

definition world_at_loop ::
  "builtins \<Rightarrow> (string \<Rightarrow> cameras) \<Rightarrow> environment \<Rightarrow> world option" where
  "world_at_loop b parse env =
     (case snd (main_configure b parse env) of
        Inl s \<Rightarrow> None
      | Inr config \<Rightarrow>
          (case main_prepare env of
             (evs, Inl e, w) \<Rightarrow> None
           | (evs, Inr u, w) \<Rightarrow>
               (case main_launch env config w of
                  (evs', Inl e, w1) \<Rightarrow> None
                | (evs', Inr u', w1) \<Rightarrow> Some w1)))"

section \<open>Properties of the text primitives\<close>

lemma contains_sublist: "contains sub s = sublist sub s"
  by (induction s) (simp_all add: sublist_Cons_right)

lemma sublist_dropWhile_iff:
  "m \<noteq> [] \<Longrightarrow> \<not> P (hd m) \<Longrightarrow> sublist m (dropWhile P l) = sublist m l"
proof (induction l)
  case Nil
  then show ?case by simp
next
  case (Cons a l)
  show ?case
  proof (cases "P a")
    case True
    have "\<not> prefix m (a # l)"
    proof
      assume "prefix m (a # l)"
      with Cons.prems(1) have "hd m = a" by (cases m) simp_all
      with Cons.prems(2) True show False by simp
    qed
    with True Cons show ?thesis by (simp add: sublist_Cons_right)
  next
    case False
    then show ?thesis by simp
  qed
qed

lemma contains_strip:
  assumes "m \<noteq> []" "\<not> isspace (hd m)" "\<not> isspace (last m)"
  shows "contains m (strip l) = contains m l"
proof -
  have "sublist m (strip l) = sublist (rev m) (dropWhile isspace (rev (dropWhile isspace l)))"
    by (simp add: strip_def sublist_rev_right)
  also have "\<dots> = sublist (rev m) (rev (dropWhile isspace l))"
    using assms by (intro sublist_dropWhile_iff) (simp_all add: hd_rev)
  also have "\<dots> = sublist m (dropWhile isspace l)"
    by simp
  also have "\<dots> = sublist m l"
    using assms by (intro sublist_dropWhile_iff)
  finally show ?thesis by (simp add: contains_sublist)
qed

text \<open>
  None of the markers starts or ends with whitespace, so a marker occurs in the stripped
  line exactly when it occurs in the line.
\<close>

lemma markers_strip:
  "contains ''Device disconnected'' (strip l) = contains ''Device disconnected'' l"
  "contains ''WARN:'' (strip l) = contains ''WARN:'' l"
  "contains ''Could not find any ADB device'' (strip l) = contains ''Could not find any ADB device'' l"
  "contains ''ERROR:'' (strip l) = contains ''ERROR:'' l"
  "contains ''FATAL:'' (strip l) = contains ''FATAL:'' l"
  "contains ''Failed'' (strip l) = contains ''Failed'' l"
  "contains ''Error'' (strip l) = contains ''Error'' l"
  "contains ''Cannot'' (strip l) = contains ''Cannot'' l"
  by (rule contains_strip; simp add: isspace_def)+

section \<open>Properties of the stream monitor\<close>

lemma handle_line_category: "fst (handle_line pn sn (strip l)) = spec_category l"
  by (simp add: handle_line_def spec_category_def disconnection_pattern_def
      fatal_error_marker_def markers_strip)

lemma handle_line_silent:
  "(snd (handle_line pn sn s) = []) = (fst (handle_line pn sn s) = info)"
  by (simp add: handle_line_def)

lemma handle_line_no_set:
  "fst (handle_line pn sn s) \<noteq> disconnect \<Longrightarrow> Set_device_disconnected \<notin> set (snd (handle_line pn sn s))"
  by (simp add: handle_line_def split: if_splits)

lemma read_stream_single:
  "read_stream pn sn [Line l] =
     (if strip l = [] then []
      else [Classified (strip l) (spec_category l) (snd (handle_line pn sn (strip l)))])"
proof (cases "l = []")
  case True
  then show ?thesis by (simp add: strip_def)
next
  case False
  then show ?thesis
    using handle_line_category [of pn sn l]
    by (cases "handle_line pn sn (strip l)") simp
qed

lemma handle_line_disconnect_effects:
  "fst (handle_line pn sn s) = disconnect \<Longrightarrow>
     \<exists>msg. snd (handle_line pn sn s) = [Print msg, Set_device_disconnected]"
  by (simp add: handle_line_def split: if_splits)

lemma read_stream_disconnect_head:
  assumes "disconnection_pattern l"
  shows "read_stream pn sn (Line l # post) =
           [Classified (strip l) disconnect (snd (handle_line pn sn (strip l)))]"
proof -
  have cat: "fst (handle_line pn sn (strip l)) = disconnect"
    using assms by (simp add: handle_line_category spec_category_def)
  have pat: "disconnection_pattern (strip l)"
    using assms by (simp add: disconnection_pattern_def markers_strip)
  have ne: "strip l \<noteq> []"
    using pat by (auto simp: disconnection_pattern_def)
  then have ne': "l \<noteq> []" by (auto simp: strip_def)
  show ?thesis using ne ne' cat
    by (cases "handle_line pn sn (strip l)") simp
qed

lemma read_stream_passes_head:
  assumes "passes x"
  shows "read_stream pn sn (x # rest) = read_stream pn sn [x] @ read_stream pn sn rest"
proof (cases x)
  case (Line l)
  with assms have l: "l \<noteq> []" "\<not> disconnection_pattern l" by simp_all
  then have "fst (handle_line pn sn (strip l)) \<noteq> disconnect"
    by (simp add: handle_line_category spec_category_def)
  with l Line show ?thesis
    by (cases "handle_line pn sn (strip l)") simp
next
  case (Raises e)
  with assms show ?thesis by simp
qed

lemma read_stream_passes_append:
  "list_all passes pre \<Longrightarrow>
     read_stream pn sn (pre @ rest) = read_stream pn sn pre @ read_stream pn sn rest"
proof (induction pre)
  case Nil
  then show ?case by simp
next
  case (Cons x pre)
  then have "passes x" "list_all passes pre" by simp_all
  then show ?case
    using read_stream_passes_head [of x pn sn "pre @ rest"]
      read_stream_passes_head [of x pn sn pre] Cons.IH
    by simp
qed

lemma read_stream_passes_no_set:
  "list_all passes pre \<Longrightarrow>
     Set_device_disconnected \<notin> set (concat (map effects (read_stream pn sn pre)))"
proof (induction pre)
  case Nil
  then show ?case by simp
next
  case (Cons x pre)
  then have x: "passes x" and pre: "list_all passes pre" by simp_all
  from x obtain l where l: "x = Line l" "l \<noteq> []" "\<not> disconnection_pattern l"
    by (cases x) simp_all
  then have "fst (handle_line pn sn (strip l)) \<noteq> disconnect"
    by (simp add: handle_line_category spec_category_def)
  then have "Set_device_disconnected \<notin> set (snd (handle_line pn sn (strip l)))"
    by (rule handle_line_no_set)
  then have "Set_device_disconnected \<notin> set (concat (map effects (read_stream pn sn [x])))"
    unfolding l(1) read_stream_single by simp
  with Cons.IH [OF pre] show ?case
    using read_stream_passes_head [OF x, of pn sn pre] by simp
qed

lemma read_stream_cut:
  "disconnection_pattern l \<Longrightarrow>
     read_stream pn sn (pre @ Line l # post) = read_stream pn sn (pre @ [Line l])"
proof (induction pre)
  case Nil
  then show ?case
    by (simp only: append_Nil read_stream_disconnect_head)
next
  case (Cons x pre)
  then show ?case
    by (cases x) (auto split: prod.splits)
qed

lemma read_stream_disconnect_last:
  "read_stream pn sn rs = xs @ it # ys \<Longrightarrow> is_disconnect it \<Longrightarrow> ys = []"
proof (induction pn sn rs arbitrary: xs rule: read_stream.induct)
  case (1 pn sn)
  then show ?case by simp
next
  case (2 pn sn e rest)
  then show ?case by (cases xs) auto
next
  case (3 pn sn line rest)
  show ?case
  proof (cases "line = []")
    case True
    with 3 show ?thesis by simp
  next
    case ne: False
    show ?thesis
    proof (cases "strip line = []")
      case True
      with ne 3 show ?thesis by simp
    next
      case False
      obtain c evs where h: "handle_line pn sn (strip line) = (c, evs)"
        by (cases "handle_line pn sn (strip line)")
      show ?thesis
      proof (cases "c = disconnect")
        case True
        with ne False h "3.prems" show ?thesis by (cases xs) auto
      next
        case nd: False
        with ne False h "3.prems"
        have eq: "Classified (strip line) c evs # read_stream pn sn rest = xs @ it # ys"
          by simp
        show ?thesis
        proof (cases xs)
          case Nil
          with eq nd "3.prems"(2) show ?thesis by auto
        next
          case (Cons a xs')
          with eq have "read_stream pn sn rest = xs' @ it # ys" by simp
          then show ?thesis
            using "3.IH"(2) [OF ne False h [symmetric] nd] "3.prems"(2) by blast
        qed
      qed
    qed
  qed
qed

lemma read_stream_disconnect_count:
  "length (filter is_disconnect (read_stream pn sn rs)) \<le> 1"
  by (induction pn sn rs rule: read_stream.induct) (auto split: prod.splits)

lemma read_stream_classified:
  "Classified s c evs \<in> set (read_stream pn sn rs) \<Longrightarrow> handle_line pn sn s = (c, evs)"
  by (induction pn sn rs rule: read_stream.induct) (auto split: prod.splits if_splits)


text \<open>
  C5. Classification follows the stated priority order. For every line read from the
  stream, the monitor records the category that the policy of the specification gives
  the line: disconnect for a line matching the disconnection pattern, otherwise
  fatal-error for a line containing one of the five fatal-error markers, otherwise warning
  for a line containing the warning marker and not the disconnect marker, and info for
  every other line. A line produces no output exactly when its category is info; a
  blank line is skipped, which is the info case as well.
\<close>

theorem classification_priority:
  "read_stream pn sn [Line l] =
     (if strip l = [] then []
      else [Classified (strip l) (spec_category l) (snd (handle_line pn sn (strip l)))])
   \<and> ((snd (handle_line pn sn (strip l)) = []) = (spec_category l = info))"
  using read_stream_single [of pn sn l] handle_line_silent [of pn sn "strip l"]
  by (simp only: handle_line_category)

lemma classification_priority_examples:
  "spec_category ''[server] WARN: Device disconnected\<newline>'' = disconnect"
  "spec_category ''ERROR: Could not find any ADB device'' = disconnect"
  "spec_category ''WARN: Failed to open'' = fatal_error"
  "spec_category ''WARN: slow'' = warning"
  "spec_category ''INFO: Device disconnected'' = info"
  by (simp_all add: spec_category_def disconnection_pattern_def fatal_error_marker_def)

text \<open>
  C3. Over any sequence of readline results, one monitor classifies at most one line as
  disconnect, and an iteration that did so is the last one of the run. A line matching
  the disconnection pattern cuts the run: what follows it in the stream has no influence
  on the result. When the loop reaches such a line, the run ends with that line's
  record, whose effects are one printed message and the setting of
  \<open>device_disconnected\<close>.
\<close>

theorem one_disconnect_per_monitor:
  "length (filter is_disconnect (read_stream pn sn rs)) \<le> 1
   \<and> (\<forall>xs it ys. read_stream pn sn rs = xs @ it # ys \<and> is_disconnect it \<longrightarrow> ys = [])
   \<and> (disconnection_pattern l \<longrightarrow>
        read_stream pn sn (pre @ Line l # post) = read_stream pn sn (pre @ [Line l]))
   \<and> (list_all passes pre \<and> disconnection_pattern l \<longrightarrow>
        (\<exists>msg. read_stream pn sn (pre @ Line l # post) =
           read_stream pn sn pre @
           [Classified (strip l) disconnect [Print msg, Set_device_disconnected]]))"
proof (intro conjI allI impI)
  show "length (filter is_disconnect (read_stream pn sn rs)) \<le> 1"
    by (rule read_stream_disconnect_count)
next
  fix xs it ys
  assume "read_stream pn sn rs = xs @ it # ys \<and> is_disconnect it"
  then show "ys = []" using read_stream_disconnect_last by blast
next
  assume "disconnection_pattern l"
  then show "read_stream pn sn (pre @ Line l # post) = read_stream pn sn (pre @ [Line l])"
    by (rule read_stream_cut)
next
  assume a: "list_all passes pre \<and> disconnection_pattern l"
  then have "fst (handle_line pn sn (strip l)) = disconnect"
    by (simp add: handle_line_category spec_category_def)
  then obtain msg where "snd (handle_line pn sn (strip l)) = [Print msg, Set_device_disconnected]"
    using handle_line_disconnect_effects by blast
  then have "read_stream pn sn (pre @ Line l # post) =
      read_stream pn sn pre @ [Classified (strip l) disconnect [Print msg, Set_device_disconnected]]"
    using a by (simp del: read_stream.simps
        add: read_stream_passes_append read_stream_disconnect_head)
  then show "\<exists>msg. read_stream pn sn (pre @ Line l # post) =
      read_stream pn sn pre @ [Classified (strip l) disconnect [Print msg, Set_device_disconnected]]"
    by blast
qed

theorem one_disconnect_per_monitor_witness:
  "list_all passes [Line ''INFO: Renderer ready\<newline>'']
   \<and> disconnection_pattern ''WARN: Device disconnected\<newline>''
   \<and> read_stream ''Video'' ''stderr''
         [Line ''INFO: Renderer ready\<newline>'', Line ''WARN: Device disconnected\<newline>'',
          Line ''ERROR: Could not find any ADB device\<newline>'']
       = [Classified ''INFO: Renderer ready'' info [],
          Classified ''WARN: Device disconnected'' disconnect
            [Print ''[!] Video: Device disconnected detected!'', Set_device_disconnected]]"
proof -
  have p: "list_all passes [Line ''INFO: Renderer ready\<newline>'']"
    by (simp add: disconnection_pattern_def)
  have d: "disconnection_pattern ''WARN: Device disconnected\<newline>''"
    by (simp add: disconnection_pattern_def)
  have s1: "strip ''INFO: Renderer ready\<newline>'' = ''INFO: Renderer ready''"
    by (simp add: strip_def isspace_def)
  have s2: "strip ''WARN: Device disconnected\<newline>'' = ''WARN: Device disconnected''"
    by (simp add: strip_def isspace_def)
  have h1: "handle_line ''Video'' ''stderr'' ''INFO: Renderer ready'' = (info, [])"
    by (simp add: handle_line_def)
  have h2: "handle_line ''Video'' ''stderr'' ''WARN: Device disconnected''
      = (disconnect, [Print ''[!] Video: Device disconnected detected!'', Set_device_disconnected])"
    by (simp add: handle_line_def)
  from one_disconnect_per_monitor
    [of "''Video''" "''stderr''" "[]" "''WARN: Device disconnected\<newline>''"
      "[Line ''INFO: Renderer ready\<newline>'']"
      "[Line ''ERROR: Could not find any ADB device\<newline>'']"] p d
  have "read_stream ''Video'' ''stderr''
         ([Line ''INFO: Renderer ready\<newline>''] @ Line ''WARN: Device disconnected\<newline>'' #
          [Line ''ERROR: Could not find any ADB device\<newline>''])
       = read_stream ''Video'' ''stderr''
         ([Line ''INFO: Renderer ready\<newline>''] @ [Line ''WARN: Device disconnected\<newline>''])"
    by blast
  then show ?thesis using p d by (simp add: s1 s2 h1 h2)
qed

text \<open>
  C7. When \<open>readline\<close> raises while the loop is running, the run ends with the record
  of the exception handler, whose only effect is the printed error message; nothing
  after the failing read is processed, and no effect of the whole run sets
  \<open>device_disconnected\<close>. The function returns its log as a value: the exception does
  not leave \<open>read_stream\<close>, so neither another monitor nor the supervision loop sees it.
\<close>

theorem read_error_local:
  "list_all passes pre \<Longrightarrow>
     read_stream pn sn (pre @ Raises e # post) =
       read_stream pn sn pre @
       [Read_failed [Print (''[!] Error monitoring '' @ pn @ '' '' @ sn @ '': '' @ e)]]
     \<and> Set_device_disconnected \<notin>
          set (concat (map effects (read_stream pn sn (pre @ Raises e # post))))"
  using read_stream_passes_no_set [of pre pn sn]
  by (simp add: read_stream_passes_append)

theorem read_error_local_witness:
  "list_all passes [Line ''WARN: slow\<newline>'']
   \<and> read_stream ''Audio'' ''stdout''
         [Line ''WARN: slow\<newline>'', Raises ''I/O operation on closed file'',
          Line ''WARN: Device disconnected\<newline>'']
       = [Classified ''WARN: slow'' warning [Print ''[W] Audio (stdout): WARN: slow''],
          Read_failed [Print ''[!] Error monitoring Audio stdout: I/O operation on closed file'']]"
proof -
  have p: "list_all passes [Line ''WARN: slow\<newline>'']"
    by (simp add: disconnection_pattern_def)
  have s1: "strip ''WARN: slow\<newline>'' = ''WARN: slow''"
    by (simp add: strip_def isspace_def)
  have h1: "handle_line ''Audio'' ''stdout'' ''WARN: slow''
      = (warning, [Print ''[W] Audio (stdout): WARN: slow''])"
    by (simp add: handle_line_def)
  from read_error_local [OF p, of "''Audio''" "''stdout''" "''I/O operation on closed file''"
      "[Line ''WARN: Device disconnected\<newline>'']"]
  show ?thesis using p by (simp add: s1 h1)
qed

text \<open>
  C8 fails as stated: the message printed for a disconnect line names the process only.
  On the stderr stream of the video process the line \<open>WARN: Device disconnected\<close>
  prints \<open>[!] Video: Device disconnected detected!\<close>, in which the stream kind does not
  occur.
\<close>

theorem disconnect_diagnostic_without_stream_kind:
  "read_stream ''Video'' ''stderr'' [Line ''WARN: Device disconnected\<newline>'']
     = [Classified ''WARN: Device disconnected'' disconnect
          [Print ''[!] Video: Device disconnected detected!'', Set_device_disconnected]]
   \<and> \<not> contains ''stderr'' ''[!] Video: Device disconnected detected!''"
proof -
  have s2: "strip ''WARN: Device disconnected\<newline>'' = ''WARN: Device disconnected''"
    by (simp add: strip_def isspace_def)
  have h2: "handle_line ''Video'' ''stderr'' ''WARN: Device disconnected''
      = (disconnect, [Print ''[!] Video: Device disconnected detected!'', Set_device_disconnected])"
    by (simp add: handle_line_def)
  show ?thesis by (simp add: s2 h2)
qed

text \<open>
  C8, amended. Every fatal-error and warning diagnostic is the process name, the stream
  kind in parentheses, and the stripped line, after the tag \<open>[!]\<close> or \<open>[W]\<close>. A
  disconnect diagnostic is one of two fixed messages that carry the process name and
  no stream kind. An info line prints nothing.
\<close>

theorem diagnostic_tags:
  "Classified s c evs \<in> set (read_stream pn sn rs) \<Longrightarrow>
     (c = fatal_error \<longrightarrow> evs = [Print (''[!] '' @ pn @ '' ('' @ sn @ ''): '' @ s)])
   \<and> (c = warning \<longrightarrow> evs = [Print (''[W] '' @ pn @ '' ('' @ sn @ ''): '' @ s)])
   \<and> (c = disconnect \<longrightarrow>
          evs = [Print (''[!] '' @ pn @ '': Device disconnected detected!''),
                 Set_device_disconnected]
        \<or> evs = [Print (''[!] '' @ pn @ '': No ADB device found!''), Set_device_disconnected])
   \<and> (c = info \<longrightarrow> evs = [])"
proof -
  assume "Classified s c evs \<in> set (read_stream pn sn rs)"
  then have "handle_line pn sn s = (c, evs)" by (rule read_stream_classified)
  then show ?thesis by (auto simp: handle_line_def split: if_splits)
qed

theorem diagnostic_tags_witness:
  "Classified ''ERROR: Cannot open'' fatal_error
       [Print ''[!] Audio (stderr): ERROR: Cannot open'']
     \<in> set (read_stream ''Audio'' ''stderr'' [Line ''  ERROR: Cannot open\<newline>''])"
proof -
  have s1: "strip ''  ERROR: Cannot open\<newline>'' = ''ERROR: Cannot open''"
    by (simp add: strip_def isspace_def)
  have h1: "handle_line ''Audio'' ''stderr'' ''ERROR: Cannot open''
      = (fatal_error, [Print ''[!] Audio (stderr): ERROR: Cannot open''])"
    by (simp add: handle_line_def)
  have m: "Classified ''ERROR: Cannot open'' fatal_error
       [Print ''[!] Audio (stderr): ERROR: Cannot open'']
     \<in> set (read_stream ''Audio'' ''stderr'' [Line ''  ERROR: Cannot open\<newline>''])"
    by (simp add: s1 h1)
  from diagnostic_tags [OF m] m show ?thesis by simp
qed

section \<open>Properties of \<open>cleanup\<close>\<close>

lemma terminate_requests_append:
  "terminate_requests (xs @ ys) = terminate_requests xs @ terminate_requests ys"
  by (induction xs rule: terminate_requests.induct) simp_all

lemma kill_requests_append:
  "kill_requests (xs @ ys) = kill_requests xs @ kill_requests ys"
  by (induction xs rule: kill_requests.induct) simp_all

lemma terminate_tracked_step:
  "terminate_tracked r (p # ps) =
     (if on_terminate r p \<noteq> None then [Terminate p, Kill p]
      else if on_wait r p \<noteq> None then [Terminate p, Wait p, Kill p]
      else [Terminate p, Wait p]) @ terminate_tracked r ps"
  by (auto simp: try_except_def then_do_def call_def split: option.splits)

lemma terminate_requests_tracked: "terminate_requests (terminate_tracked r ps) = ps"
  by (induction ps) (simp_all add: terminate_tracked_step del: terminate_tracked.simps(2))

lemma kill_requests_tracked:
  "kill_requests (terminate_tracked r ps) = filter (not_exited_in_grace r) ps"
  by (induction ps)
    (simp_all add: terminate_tracked_step not_exited_in_grace_def del: terminate_tracked.simps(2))

lemma error_lines_tracked: "error_lines (terminate_tracked r ps) = []"
  by (induction ps) (simp_all add: terminate_tracked_step del: terminate_tracked.simps(2))

lemma requests_unload [simp]:
  "terminate_requests (unload_module r w) = []" "kill_requests (unload_module r w) = []"
  by (simp_all add: unload_module_def try_except_def call_def split: option.splits)

lemma requests_remove [simp]:
  "terminate_requests (remove_pipe r w) = []" "kill_requests (remove_pipe r w) = []"
  by (simp_all add: remove_pipe_def try_except_def call_def split: option.splits)

lemma requests_pkill [simp]:
  "terminate_requests (kill_scrcpy r) = []" "kill_requests (kill_scrcpy r) = []"
  by (simp_all add: kill_scrcpy_def try_except_def call_def split: option.splits)

lemma stop_monitoring_threads_None:
  "(stop_monitoring_threads r ts = None) = (\<not> list_ex (on_is_alive r) ts)"
  by (induction ts) simp_all

lemma cleanup_completes:
  "\<not> list_ex (on_is_alive r) (monitoring_threads w) \<Longrightarrow>
     cleanup r w =
       ([Print ''[*] Cleaning up...''] @ unload_module r w @ remove_pipe r w @ kill_scrcpy r
          @ terminate_tracked r (scrcpy_processes w),
        Inr (w\<lparr>pipe_exists := pipe_exists w \<and> on_remove r \<noteq> None\<rparr>))"
  using stop_monitoring_threads_None [of r "monitoring_threads w"]
  by (simp add: cleanup_def)

text \<open>
  With a monitoring thread still alive, the assignment to \<open>daemon\<close> raises before the
  first release step: \<open>cleanup\<close> has printed its banner and done nothing else.
\<close>

lemma cleanup_aborts:
  "list_ex (on_is_alive r) (monitoring_threads w) \<Longrightarrow>
     cleanup r w =
       ([Print ''[*] Cleaning up...''],
        Inl (Exception ''cannot set daemon status of active thread''))"
proof -
  have "list_ex (on_is_alive r) ts \<Longrightarrow>
    stop_monitoring_threads r ts
      = Some (Exception ''cannot set daemon status of active thread'')" for ts
    by (induction ts) auto
  then show "list_ex (on_is_alive r) (monitoring_threads w) \<Longrightarrow> ?thesis"
    by (simp add: cleanup_def)
qed

lemma cleanup_returned:
  "snd (cleanup r w) = Inr w' \<Longrightarrow>
     \<not> list_ex (on_is_alive r) (monitoring_threads w)
     \<and> w' = w\<lparr>pipe_exists := pipe_exists w \<and> on_remove r \<noteq> None\<rparr>"
  using cleanup_aborts [of r w] cleanup_completes [of r w]
  by (cases "list_ex (on_is_alive r) (monitoring_threads w)") auto


lemma cleanup_events_mem:
  assumes "\<not> list_ex (on_is_alive r) (monitoring_threads w)"
  shows "module_acquired w \<Longrightarrow>
           Run [''pactl'', ''unload-module'', the (MODULE_ID w)] \<in> set (fst (cleanup r w))"
    and "pipe_exists w \<Longrightarrow> Remove PIPE_PATH \<in> set (fst (cleanup r w))"
    and "Run [''pkill'', ''-f'', ''scrcpy''] \<in> set (fst (cleanup r w))"
    and "terminate_requests (fst (cleanup r w)) = scrcpy_processes w"
    and "kill_requests (fst (cleanup r w)) = filter (not_exited_in_grace r) (scrcpy_processes w)"
proof -
  note c = cleanup_completes [OF assms]
  show "module_acquired w \<Longrightarrow>
      Run [''pactl'', ''unload-module'', the (MODULE_ID w)] \<in> set (fst (cleanup r w))"
    by (auto simp: c module_acquired_def unload_module_def try_except_def call_def
        split: option.splits)
  show "pipe_exists w \<Longrightarrow> Remove PIPE_PATH \<in> set (fst (cleanup r w))"
    by (auto simp: c remove_pipe_def try_except_def call_def split: option.splits)
  show "Run [''pkill'', ''-f'', ''scrcpy''] \<in> set (fst (cleanup r w))"
    by (auto simp: c kill_scrcpy_def try_except_def call_def split: option.splits)
  show "terminate_requests (fst (cleanup r w)) = scrcpy_processes w"
    by (simp add: c terminate_requests_append terminate_requests_tracked)
  show "kill_requests (fst (cleanup r w)) = filter (not_exited_in_grace r) (scrcpy_processes w)"
    by (simp add: c kill_requests_append kill_requests_tracked)
qed

lemma cleanup_logs_mem:
  assumes "\<not> list_ex (on_is_alive r) (monitoring_threads w)"
  shows "module_acquired w \<Longrightarrow> on_unload r = Some e \<Longrightarrow>
           Print (''[!] Error unloading module: '' @ e) \<in> set (fst (cleanup r w))"
    and "pipe_exists w \<Longrightarrow> on_remove r = Some e \<Longrightarrow>
           Print (''[!] Error removing pipe: '' @ e) \<in> set (fst (cleanup r w))"
    and "on_pkill r = Some e \<Longrightarrow>
           Print (''[!] Error killing scrcpy processes: '' @ e) \<in> set (fst (cleanup r w))"
proof -
  note c = cleanup_completes [OF assms]
  show "module_acquired w \<Longrightarrow> on_unload r = Some e \<Longrightarrow>
      Print (''[!] Error unloading module: '' @ e) \<in> set (fst (cleanup r w))"
    by (auto simp: c module_acquired_def unload_module_def try_except_def call_def
        split: option.splits)
  show "pipe_exists w \<Longrightarrow> on_remove r = Some e \<Longrightarrow>
      Print (''[!] Error removing pipe: '' @ e) \<in> set (fst (cleanup r w))"
    by (auto simp: c remove_pipe_def try_except_def call_def split: option.splits)
  show "on_pkill r = Some e \<Longrightarrow>
      Print (''[!] Error killing scrcpy processes: '' @ e) \<in> set (fst (cleanup r w))"
    by (auto simp: c kill_scrcpy_def try_except_def call_def split: option.splits)
qed

lemma remove_again:
  "(Remove PIPE_PATH \<in> set (remove_pipe r w)) = pipe_exists w"
  by (auto simp: remove_pipe_def try_except_def call_def split: option.splits)

lemma no_remove_elsewhere:
  "Remove p \<notin> set (unload_module r w)" "Remove p \<notin> set (kill_scrcpy r)"
  "Remove p \<notin> set (terminate_tracked r ps)"
proof -
  show "Remove p \<notin> set (unload_module r w)"
    by (auto simp: unload_module_def try_except_def call_def split: option.splits if_splits)
  show "Remove p \<notin> set (kill_scrcpy r)"
    by (auto simp: kill_scrcpy_def try_except_def call_def split: option.splits)
  show "Remove p \<notin> set (terminate_tracked r ps)"
    by (induction ps) (auto simp: terminate_tracked_step simp del: terminate_tracked.simps(2))
qed

lemma example_runs:
  "cleanup all_return after_setup =
     ([Print ''[*] Cleaning up...'', Run [''pactl'', ''unload-module'', ''42''],
       Remove ''/tmp/adbcam_pipe'', Run [''pkill'', ''-f'', ''scrcpy''],
       Terminate 1, Wait 1, Terminate 2, Wait 2],
      Inr (after_setup\<lparr>pipe_exists := False\<rparr>))"
  "cleanup all_return (after_setup\<lparr>pipe_exists := False\<rparr>) =
     ([Print ''[*] Cleaning up...'', Run [''pactl'', ''unload-module'', ''42''],
       Run [''pkill'', ''-f'', ''scrcpy''],
       Terminate 1, Wait 1, Terminate 2, Wait 2],
      Inr (after_setup\<lparr>pipe_exists := False\<rparr>))"
  "cleanup second_hangs after_setup =
     ([Print ''[*] Cleaning up...'', Run [''pactl'', ''unload-module'', ''42''],
       Remove ''/tmp/adbcam_pipe'', Run [''pkill'', ''-f'', ''scrcpy''],
       Terminate 1, Wait 1, Terminate 2, Wait 2, Kill 2],
      Inr (after_setup\<lparr>pipe_exists := False\<rparr>))"
  "cleanup all_raise after_setup =
     ([Print ''[*] Cleaning up...'',
       Run [''pactl'', ''unload-module'', ''42''],
       Print ''[!] Error unloading module: No such file or directory'',
       Remove ''/tmp/adbcam_pipe'',
       Print ''[!] Error removing pipe: Permission denied'',
       Run [''pkill'', ''-f'', ''scrcpy''],
       Print ''[!] Error killing scrcpy processes: No such file or directory'',
       Terminate 1, Kill 1, Terminate 2, Kill 2],
      Inr after_setup)"
  by (simp_all add: cleanup_def after_setup_def all_return_def second_hangs_def all_raise_def
      unload_module_def remove_pipe_def kill_scrcpy_def try_except_def then_do_def call_def
      PIPE_PATH_def)


lemmas example_defs =
  cleanup_def after_setup_def all_return_def second_hangs_def all_raise_def tracked_raise_def
  unload_module_def remove_pipe_def kill_scrcpy_def try_except_def then_do_def call_def
  PIPE_PATH_def module_acquired_def not_exited_in_grace_def

text \<open>
  C1 fails as stated: \<open>cleanup\<close> has no guard. After a first call that completed and
  removed the pipe, a second call unloads the module again, runs the pattern-kill again
  and calls \<open>terminate\<close> and \<open>wait\<close> on both tracked processes again.
\<close>

theorem second_cleanup_repeats_release:
  "snd (cleanup all_return after_setup) = Inr (after_setup\<lparr>pipe_exists := False\<rparr>)
   \<and> fst (cleanup all_return (after_setup\<lparr>pipe_exists := False\<rparr>)) =
       [Print ''[*] Cleaning up...'', Run [''pactl'', ''unload-module'', ''42''],
        Run [''pkill'', ''-f'', ''scrcpy''], Terminate 1, Wait 1, Terminate 2, Wait 2]"
  by (simp add: example_defs)

text \<open>
  C1, amended. \<open>cleanup\<close> changes neither \<open>MODULE_ID\<close> nor \<open>scrcpy_processes\<close>, so after
  a call that completed, a second call, whatever the library calls answer this time (a
  thread that was not alive stays so), completes as well and goes through the sequence
  again: it prints the banner, unloads
  the module when an id is recorded, runs the pattern-kill, and calls \<open>terminate\<close> on
  every tracked process, with \<open>kill\<close> for those whose \<open>terminate\<close> or \<open>wait\<close> raised. Only
  the removal of the pipe is conditional on the first call: it is attempted again
  exactly when the pipe existed and the first \<open>os.remove\<close> raised.
\<close>

theorem cleanup_unguarded:
  "snd (cleanup r1 w) = Inr w1 \<Longrightarrow> (\<forall>t. on_is_alive r2 t \<longrightarrow> on_is_alive r1 t) \<Longrightarrow>
     (\<exists>w2. snd (cleanup r2 w1) = Inr w2)
   \<and> MODULE_ID w1 = MODULE_ID w
   \<and> scrcpy_processes w1 = scrcpy_processes w
   \<and> hd (fst (cleanup r2 w1)) = Print ''[*] Cleaning up...''
   \<and> (module_acquired w \<longrightarrow>
        Run [''pactl'', ''unload-module'', the (MODULE_ID w)] \<in> set (fst (cleanup r2 w1)))
   \<and> Run [''pkill'', ''-f'', ''scrcpy''] \<in> set (fst (cleanup r2 w1))
   \<and> terminate_requests (fst (cleanup r2 w1)) = scrcpy_processes w
   \<and> kill_requests (fst (cleanup r2 w1)) = filter (not_exited_in_grace r2) (scrcpy_processes w)
   \<and> ((Remove PIPE_PATH \<in> set (fst (cleanup r2 w1))) = (pipe_exists w \<and> on_remove r1 \<noteq> None))"
proof -
  assume a: "snd (cleanup r1 w) = Inr w1"
    and mono: "\<forall>t. on_is_alive r2 t \<longrightarrow> on_is_alive r1 t"
  from cleanup_returned [OF a]
  have dead: "\<not> list_ex (on_is_alive r1) (monitoring_threads w)"
    and w1: "w1 = w\<lparr>pipe_exists := pipe_exists w \<and> on_remove r1 \<noteq> None\<rparr>"
    by simp_all
  from dead w1 mono have dead1: "\<not> list_ex (on_is_alive r2) (monitoring_threads w1)"
    by (auto simp: list_ex_iff)
  note c = cleanup_completes [OF dead1]
  note m = cleanup_events_mem [OF dead1]
  have acq: "module_acquired w1 = module_acquired w" "MODULE_ID w1 = MODULE_ID w"
    "scrcpy_processes w1 = scrcpy_processes w"
    "pipe_exists w1 = (pipe_exists w \<and> on_remove r1 \<noteq> None)"
    using w1 by (simp_all add: module_acquired_def)
  have "\<exists>w2. snd (cleanup r2 w1) = Inr w2" by (simp add: c)
  moreover have "hd (fst (cleanup r2 w1)) = Print ''[*] Cleaning up...''" by (simp add: c)
  moreover have "module_acquired w \<longrightarrow>
      Run [''pactl'', ''unload-module'', the (MODULE_ID w)] \<in> set (fst (cleanup r2 w1))"
    using m(1) acq by simp
  moreover have "(Remove PIPE_PATH \<in> set (fst (cleanup r2 w1)))
      = (pipe_exists w \<and> on_remove r1 \<noteq> None)"
    using acq(4) by (simp add: c remove_again no_remove_elsewhere)
  ultimately show ?thesis using m(3,4,5) acq by simp
qed

theorem cleanup_unguarded_witness:
  "snd (cleanup all_return after_setup) = Inr (after_setup\<lparr>pipe_exists := False\<rparr>)
   \<and> terminate_requests (fst (cleanup all_return (after_setup\<lparr>pipe_exists := False\<rparr>))) = [1, 2]
   \<and> Run [''pkill'', ''-f'', ''scrcpy'']
       \<in> set (fst (cleanup all_return (after_setup\<lparr>pipe_exists := False\<rparr>)))
   \<and> Remove PIPE_PATH \<notin> set (fst (cleanup all_return (after_setup\<lparr>pipe_exists := False\<rparr>)))"
proof -
  have a: "snd (cleanup all_return after_setup) = Inr (after_setup\<lparr>pipe_exists := False\<rparr>)"
    by (simp add: example_defs)
  have b: "scrcpy_processes after_setup = [1, 2]" "on_remove all_return = None"
    by (simp_all add: after_setup_def all_return_def)
  have mono: "\<forall>t. on_is_alive all_return t \<longrightarrow> on_is_alive all_return t"
    by simp
  from cleanup_unguarded [OF a mono] a b show ?thesis by simp
qed

text \<open>
  C2 fails as stated: the loop reads \<open>scrcpy_processes\<close> and never removes an entry. With
  two tracked processes of which the second does not exit in time, \<open>cleanup\<close> kills the
  second and returns with both still in the list.
\<close>

theorem registry_kept_after_terminate_all:
  "snd (cleanup second_hangs after_setup) = Inr (after_setup\<lparr>pipe_exists := False\<rparr>)
   \<and> scrcpy_processes (after_setup\<lparr>pipe_exists := False\<rparr>) = [1, 2]
   \<and> kill_requests (fst (cleanup second_hangs after_setup)) = [2]"
  by (simp add: example_defs)

text \<open>
  C2, amended. The loop over the tracked processes calls \<open>terminate\<close> on every one of
  them, in order, and \<open>kill\<close> on exactly those whose \<open>terminate\<close> or \<open>wait\<close> raised; when no
  \<open>terminate\<close> raises, these are the J processes whose \<open>wait\<close> timed out. Every exception
  is caught inside the loop (the loop is a list of events, with no exception result), so
  a process that has already exited, for which both calls return, costs nothing. When
  \<open>cleanup\<close> completes, these are the requests it made, and the list of tracked processes
  is what it was before.
\<close>

theorem terminate_all_requests:
  "terminate_requests (terminate_tracked r procs) = procs
   \<and> kill_requests (terminate_tracked r procs) = filter (not_exited_in_grace r) procs
   \<and> ((\<forall>p \<in> set procs. on_terminate r p = None) \<longrightarrow>
        length (kill_requests (terminate_tracked r procs))
          = length (filter (\<lambda>p. on_wait r p \<noteq> None) procs))
   \<and> (\<forall>w'. snd (cleanup r w) = Inr w' \<longrightarrow>
          terminate_requests (fst (cleanup r w)) = scrcpy_processes w
        \<and> kill_requests (fst (cleanup r w)) = filter (not_exited_in_grace r) (scrcpy_processes w)
        \<and> scrcpy_processes w' = scrcpy_processes w)"
proof (intro conjI allI impI)
  show "terminate_requests (terminate_tracked r procs) = procs"
    by (rule terminate_requests_tracked)
  show "kill_requests (terminate_tracked r procs) = filter (not_exited_in_grace r) procs"
    by (rule kill_requests_tracked)
next
  assume "\<forall>p \<in> set procs. on_terminate r p = None"
  then have "filter (not_exited_in_grace r) procs = filter (\<lambda>p. on_wait r p \<noteq> None) procs"
    by (intro filter_cong) (simp_all add: not_exited_in_grace_def)
  then show "length (kill_requests (terminate_tracked r procs))
      = length (filter (\<lambda>p. on_wait r p \<noteq> None) procs)"
    by (simp add: kill_requests_tracked)
next
  fix w'
  assume a: "snd (cleanup r w) = Inr w'"
  from cleanup_returned [OF a]
  have dead: "\<not> list_ex (on_is_alive r) (monitoring_threads w)"
    and w': "w' = w\<lparr>pipe_exists := pipe_exists w \<and> on_remove r \<noteq> None\<rparr>"
    by simp_all
  show "terminate_requests (fst (cleanup r w)) = scrcpy_processes w"
    by (rule cleanup_events_mem(4) [OF dead])
  show "kill_requests (fst (cleanup r w)) = filter (not_exited_in_grace r) (scrcpy_processes w)"
    by (rule cleanup_events_mem(5) [OF dead])
  show "scrcpy_processes w' = scrcpy_processes w"
    using w' by simp
qed

theorem terminate_all_requests_witness:
  "list_all (\<lambda>p. on_terminate second_hangs p = None) [1, 2]
   \<and> filter (\<lambda>p. on_wait second_hangs p \<noteq> None) [1, 2] = [2]
   \<and> terminate_tracked second_hangs [1, 2]
       = [Terminate 1, Wait 1, Terminate 2, Wait 2, Kill 2]
   \<and> length (kill_requests (terminate_tracked second_hangs [1, 2])) = 1
   \<and> snd (cleanup second_hangs after_setup) = Inr (after_setup\<lparr>pipe_exists := False\<rparr>)
   \<and> terminate_requests (fst (cleanup second_hangs after_setup)) = [1, 2]"
proof -
  have h: "\<forall>p \<in> set [1, 2]. on_terminate second_hangs p = None"
    by (simp add: second_hangs_def)
  have f: "filter (\<lambda>p. on_wait second_hangs p \<noteq> None) [1, 2] = [2::nat]"
    by (simp add: second_hangs_def)
  have t: "terminate_tracked second_hangs [1, 2]
       = [Terminate 1, Wait 1, Terminate 2, Wait 2, Kill 2]"
    by (simp add: example_defs)
  have a: "snd (cleanup second_hangs after_setup) = Inr (after_setup\<lparr>pipe_exists := False\<rparr>)"
    by (simp add: example_defs)
  have b: "scrcpy_processes after_setup = [1, 2]"
    by (simp add: after_setup_def)
  from terminate_all_requests [of second_hangs "[1, 2]" after_setup] h f t a b
  show ?thesis by simp
qed

text \<open>
  C6 fails as stated: a failure in the last step is caught but not logged. When
  \<open>terminate\<close> and \<open>kill\<close> raise for both tracked processes, \<open>cleanup\<close> prints no error line
  at all.
\<close>

theorem tracked_failure_not_logged:
  "on_terminate tracked_raise 1 = Some ''Permission denied''
   \<and> on_kill tracked_raise 1 = Some ''Permission denied''
   \<and> cleanup tracked_raise after_setup =
       ([Print ''[*] Cleaning up...'', Run [''pactl'', ''unload-module'', ''42''],
         Remove ''/tmp/adbcam_pipe'', Run [''pkill'', ''-f'', ''scrcpy''],
         Terminate 1, Kill 1, Terminate 2, Kill 2],
        Inr (after_setup\<lparr>pipe_exists := False\<rparr>))
   \<and> error_lines (fst (cleanup tracked_raise after_setup)) = []"
  by (simp add: example_defs)

text \<open>
  C6, amended. In a world where no monitoring thread is alive, whatever the library
  calls answer, \<open>cleanup\<close> completes and attempts all four steps: the module unload when
  an id is recorded, the removal of the pipe when it exists, the pattern-kill, and
  \<open>terminate\<close> on every tracked process. An exception in one of the first three steps
  is printed by that step; an exception in the last step is caught without a message.
  (What happens with a monitoring thread alive is lemma \<open>cleanup_aborts\<close>.)
\<close>

theorem cleanup_best_effort:
  "\<not> list_ex (on_is_alive r) (monitoring_threads w) \<Longrightarrow>
     (\<exists>w'. snd (cleanup r w) = Inr w')
   \<and> (module_acquired w \<longrightarrow>
        Run [''pactl'', ''unload-module'', the (MODULE_ID w)] \<in> set (fst (cleanup r w)))
   \<and> (pipe_exists w \<longrightarrow> Remove PIPE_PATH \<in> set (fst (cleanup r w)))
   \<and> Run [''pkill'', ''-f'', ''scrcpy''] \<in> set (fst (cleanup r w))
   \<and> terminate_requests (fst (cleanup r w)) = scrcpy_processes w
   \<and> (\<forall>e. module_acquired w \<and> on_unload r = Some e \<longrightarrow>
          Print (''[!] Error unloading module: '' @ e) \<in> set (fst (cleanup r w)))
   \<and> (\<forall>e. pipe_exists w \<and> on_remove r = Some e \<longrightarrow>
          Print (''[!] Error removing pipe: '' @ e) \<in> set (fst (cleanup r w)))
   \<and> (\<forall>e. on_pkill r = Some e \<longrightarrow>
          Print (''[!] Error killing scrcpy processes: '' @ e) \<in> set (fst (cleanup r w)))
   \<and> error_lines (terminate_tracked r (scrcpy_processes w)) = []"
proof -
  assume dead: "\<not> list_ex (on_is_alive r) (monitoring_threads w)"
  have "\<exists>w'. snd (cleanup r w) = Inr w'"
    by (simp add: cleanup_completes [OF dead])
  then show ?thesis
    using cleanup_events_mem [OF dead] cleanup_logs_mem [OF dead]
    by (simp add: error_lines_tracked)
qed

theorem cleanup_best_effort_witness:
  "\<not> list_ex (on_is_alive all_raise) (monitoring_threads after_setup)
   \<and> module_acquired after_setup \<and> pipe_exists after_setup
   \<and> on_unload all_raise = Some ''No such file or directory''
   \<and> on_remove all_raise = Some ''Permission denied''
   \<and> on_pkill all_raise = Some ''No such file or directory''
   \<and> snd (cleanup all_raise after_setup) = Inr after_setup
   \<and> terminate_requests (fst (cleanup all_raise after_setup)) = [1, 2]
   \<and> Print ''[!] Error killing scrcpy processes: No such file or directory''
       \<in> set (fst (cleanup all_raise after_setup))"
proof -
  have dead: "\<not> list_ex (on_is_alive all_raise) (monitoring_threads after_setup)"
    by (simp add: after_setup_def all_raise_def)
  have h: "module_acquired after_setup" "pipe_exists after_setup"
    "on_unload all_raise = Some ''No such file or directory''"
    "on_remove all_raise = Some ''Permission denied''"
    "on_pkill all_raise = Some ''No such file or directory''"
    "scrcpy_processes after_setup = [1, 2]"
    by (simp_all add: after_setup_def all_raise_def module_acquired_def)
  have r: "snd (cleanup all_raise after_setup) = Inr after_setup"
    by (simp add: example_defs)
  from cleanup_best_effort [OF dead] dead h r show ?thesis by simp
qed

section \<open>Properties of \<open>check_adb_devices\<close>\<close>

lemma collect_devices_nonempty:
  "(collect_devices ls \<noteq> []) = (\<exists>l \<in> set ls. reports_device (strip l))"
  by (induction ls) (auto simp: Let_def reports_device_def)

lemma check_adb_devices_completed:
  "snd (check_adb_devices (Completed out err)) =
     (\<exists>line \<in> set (examined_lines out). reports_device line)"
  by (simp add: check_adb_devices_def Let_def collect_devices_nonempty examined_lines_def)

text \<open>
  When the query did not complete (timeout, non-zero exit status, no adb program, any
  other exception), the answer is no.
\<close>

lemma check_adb_devices_failed:
  "snd (check_adb_devices TimeoutExpired) = False"
  "snd (check_adb_devices (CalledProcessError e err)) = False"
  "snd (check_adb_devices (FileNotFoundError e)) = False"
  "snd (check_adb_devices (OtherError e)) = False"
  by (simp_all add: check_adb_devices_def)

text \<open>
  C9 fails as stated, in both directions, on the lines of the output as written. With a
  blank after the state, no line after the header has \<open>device\<close> as its second field, and
  the function returns true, since it strips the line first. With a device line that has
  no serial number, the line has \<open>device\<close> as its second field, and the function returns
  false, since the stripped line has one field only.
\<close>

theorem raw_lines_disagree:
  "snd (check_adb_devices (Completed blank_after_state []))
   \<and> \<not> list_ex reports_device (lines_after_header blank_after_state)
   \<and> \<not> snd (check_adb_devices (Completed no_serial []))
   \<and> list_ex reports_device (lines_after_header no_serial)"
  by (simp add: blank_after_state_def no_serial_def check_adb_devices_def
      lines_after_header_def reports_device_def strip_def isspace_def startswith_def)

text \<open>
  C9, amended. For every output of the device query, \<open>check_adb_devices\<close> returns true
  exactly when some line after the first one, once surrounding whitespace has been
  removed from the whole output and then from the line, does not start with an asterisk
  and splits on the tab character into at least two fields whose second field is exactly
  \<open>device\<close>. When every such line gives its device another state, or none, the result
  is false.
\<close>

theorem adb_device_found:
  "snd (check_adb_devices (Completed out err)) =
     (\<exists>line \<in> set (examined_lines out). reports_device line)
   \<and> ((\<forall>line \<in> set (examined_lines out). device_state line \<noteq> Some ''device'') \<longrightarrow>
        \<not> snd (check_adb_devices (Completed out err)))"
  by (auto simp: check_adb_devices_completed reports_device_def device_state_def)

theorem adb_device_found_witness:
  "list_all (\<lambda>line. device_state line \<noteq> Some ''device'') (examined_lines none_ready)
   \<and> examined_lines none_ready
       = [''R58M123ABC'' @ [CHR 0x09] @ ''unauthorized'', ''emulator-5554'' @ [CHR 0x09] @ ''offline'']
   \<and> \<not> snd (check_adb_devices (Completed none_ready []))"
proof -
  have l: "examined_lines none_ready
       = [''R58M123ABC'' @ [CHR 0x09] @ ''unauthorized'', ''emulator-5554'' @ [CHR 0x09] @ ''offline'']"
    by (simp add: none_ready_def examined_lines_def strip_def isspace_def)
  have h: "\<forall>line \<in> set (examined_lines none_ready). device_state line \<noteq> Some ''device''"
    unfolding l by (simp add: device_state_def)
  have n: "\<not> snd (check_adb_devices (Completed none_ready []))"
    using adb_device_found [of none_ready "[]"] h by blast
  show ?thesis using h l n by (simp only: list_all_iff simp_thms)
qed

text \<open>A run that finds a device: one device ready, one offline.\<close>

lemma check_adb_devices_example:
  "check_adb_devices (Completed one_ready_one_offline [])
     = ([Print ''[*] Checking for connected ADB devices...'',
         Print ''[+] Found ADB device(s): R58M123ABC''], True)"
  by (simp add: one_ready_one_offline_def check_adb_devices_def strip_def isspace_def
      startswith_def)

section \<open>Properties of the selection and of \<open>main\<close>\<close>

text \<open>
  A prompt raises nothing but exceptions of class \<open>Exception\<close>: EOFError at the end of
  the input and, in \<open>select_camera\<close>, the errors on the data of the selected camera.
\<close>

lemma choose_camera_raise:
  "fst (snd (choose_camera cameras cons)) = Inl (Raise e) \<Longrightarrow> \<exists>m. e = Exception m"
  by (induction cameras cons rule: choose_camera.induct)
    (auto simp: Let_def split: if_splits prod.splits)

lemma choose_resolution_raise:
  "fst (snd (choose_resolution b rs av cons)) = Inl (Raise e) \<Longrightarrow> \<exists>m. e = Exception m"
  by (induction b rs av cons rule: choose_resolution.induct)
    (auto simp: Let_def split: if_splits prod.splits option.splits list.splits)

lemma choose_fps_raise:
  "fst (snd (choose_fps b fs cons)) = Inl (Raise e) \<Longrightarrow> \<exists>m. e = Exception m"
  by (induction b fs cons rule: choose_fps.induct)
    (auto simp: Let_def split: if_splits prod.splits option.splits)

lemma choose_microphone_raise:
  "fst (snd (choose_microphone b cons)) = Inl (Raise e) \<Longrightarrow> \<exists>m. e = Exception m"
  by (induction b cons rule: choose_microphone.induct)
    (auto simp: Let_def split: if_splits prod.splits option.splits)

lemma select_camera_raise:
  assumes "fst (snd (select_camera b cameras cons)) = Inl (Raise e)"
  shows "\<exists>m. e = Exception m"
proof (cases "cameras = []")
  case True
  with assms show ?thesis by (simp add: select_camera_def)
next
  case False
  obtain e1 r1 c1 where 1: "choose_camera cameras cons = (e1, r1, c1)"
    by (cases "choose_camera cameras cons")
  show ?thesis
  proof (cases r1)
    case (Inl s)
    with assms False 1 choose_camera_raise [of cameras cons e] show ?thesis
      by (simp add: select_camera_def)
  next
    case (Inr sel)
    show ?thesis
    proof (cases "map_of cameras sel")
      case None
      with assms False 1 Inr show ?thesis by (auto simp: select_camera_def)
    next
      case (Some info)
      let ?rs = "info_resolutions info"
      let ?av = "filter (\<lambda>r. r \<in> set ?rs) common_resolutions
                 @ filter (\<lambda>r. r \<notin> set common_resolutions) ?rs"
      obtain e3 r3 c3 where 3: "choose_resolution b ?rs ?av c1 = (e3, r3, c3)"
        by (cases "choose_resolution b ?rs ?av c1")
      show ?thesis
      proof (cases r3)
        case (Inl s)
        with assms False 1 Inr Some 3 choose_resolution_raise [of b ?rs ?av c1 e] show ?thesis
          by (simp add: select_camera_def Let_def)
      next
        case res: (Inr selres)
        show ?thesis
        proof (cases "those (map (\<lambda>x. int_of b (strip x)) (split (CHR '','') (info_fps_range info)))")
          case None
          with assms False 1 Inr Some 3 res show ?thesis
            by (auto simp: select_camera_def Let_def)
        next
          case fs: (Some fps_options)
          obtain e5 r5 c5 where 5: "choose_fps b fps_options c3 = (e5, r5, c5)"
            by (cases "choose_fps b fps_options c3")
          with assms False 1 Inr Some 3 res fs choose_fps_raise [of b fps_options c3 e]
          show ?thesis
            by (cases r5) (simp_all add: select_camera_def Let_def)
        qed
      qed
    qed
  qed
qed


text \<open>
  \<open>signal_handler\<close> and the last part of \<open>main\<close> end by \<open>SystemExit(0)\<close>, a normal
  return, or the exception of \<open>cleanup\<close>.
\<close>

lemma signal_handler_exn:
  "fst (snd (signal_handler r w)) = SystemExit 0
   \<or> fst (snd (signal_handler r w)) = Exception ''cannot set daemon status of active thread''"
  using cleanup_aborts [of r w] cleanup_completes [of r w]
  by (cases "list_ex (on_is_alive r) (monitoring_threads w)") (simp_all add: signal_handler_def)

lemma signal_handler_finished:
  "\<not> list_ex (on_is_alive r) (monitoring_threads w) \<Longrightarrow>
     fst (snd (signal_handler r w)) = SystemExit 0"
  by (simp add: signal_handler_def cleanup_completes)

lemma supervise_threads:
  "monitoring_threads (snd (snd (supervise b w obs))) = monitoring_threads w"
  by (induction b w obs rule: supervise.induct) (auto simp: Let_def split: prod.splits)

lemma supervise_stopped:
  "fst (snd (supervise b w obs)) = Stopped r \<Longrightarrow> r \<in> set (shutdown_answers r0 obs)"
  by (induction b w obs rule: supervise.induct)
    (auto simp: Let_def split: prod.splits if_splits)

lemma shutdown_answers_last: "r0 \<in> set (shutdown_answers r0 obs)"
  by (induction r0 obs rule: shutdown_answers.induct) simp_all

lemma main_run_raised:
  assumes "fst (snd (main_run b env w)) = Raised e"
  shows "e = SystemExit 0 \<or> e = Exception ''cannot set daemon status of active thread''"
proof -
  obtain evs le w1 where s: "supervise b w (observations env) = (evs, le, w1)"
    by (cases "supervise b w (observations env)")
  show ?thesis
  proof (cases le)
    case Left_loop
    with assms s cleanup_aborts [of "at_shutdown env" w1] cleanup_completes [of "at_shutdown env" w1]
    show ?thesis
      by (cases "list_ex (on_is_alive (at_shutdown env)) (monitoring_threads w1)")
        (simp_all add: main_run_def)
  next
    case (Stopped r)
    with assms s signal_handler_exn [of r w1] show ?thesis
      by (cases "signal_handler r w1") (auto simp: main_run_def)
  next
    case Still_running
    with assms s show ?thesis by (simp add: main_run_def)
  qed
qed

lemma main_run_finished:
  assumes "fst (snd (main_run b env w)) \<noteq> Running" and "threads_finished env w"
  shows "exit_status (fst (snd (main_run b env w))) = Some 0"
proof -
  obtain evs le w1 where s: "supervise b w (observations env) = (evs, le, w1)"
    by (cases "supervise b w (observations env)")
  have th: "monitoring_threads w1 = monitoring_threads w"
    using supervise_threads [of b w "observations env"] s by simp
  show ?thesis
  proof (cases le)
    case Left_loop
    have "\<not> list_ex (on_is_alive (at_shutdown env)) (monitoring_threads w1)"
      using assms(2) shutdown_answers_last [of "at_shutdown env" "observations env"] th
      by (simp add: threads_finished_def list_all_iff)
    with Left_loop s show ?thesis
      by (simp add: main_run_def cleanup_completes)
  next
    case (Stopped r)
    have "r \<in> set (shutdown_answers (at_shutdown env) (observations env))"
      using supervise_stopped [of b w "observations env" r] s Stopped by simp
    then have "\<not> list_ex (on_is_alive r) (monitoring_threads w1)"
      using assms(2) th by (simp add: threads_finished_def list_all_iff)
    then have "fst (snd (signal_handler r w1)) = SystemExit 0"
      by (rule signal_handler_finished)
    with Stopped s show ?thesis
      by (cases "signal_handler r w1") (simp add: main_run_def)
  next
    case Still_running
    with assms(1) s show ?thesis by (simp add: main_run_def)
  qed
qed

text \<open>The exceptions of the setup and launch parts, and of the configuration.\<close>

lemma main_prepare_raised:
  "fst (snd (main_prepare env)) = Inl e \<Longrightarrow>
     loopback_setup_failed env \<or> virtual_mic_setup_failed env"
  by (auto simp: main_prepare_def loopback_setup_failed_def virtual_mic_setup_failed_def
      split: prod.splits sum.splits bool.splits)

lemma main_launch_raised:
  "fst (snd (main_launch env config w)) = Inl e \<Longrightarrow> launch_failed env"
  by (auto simp: main_launch_def launch_failed_def start_scrcpy_video_def
      start_scrcpy_audio_def Let_def split: prod.splits sum.splits option.splits)

lemma press_enter_raise:
  "snd (press_enter cons) = Inl (Raise e) \<Longrightarrow> \<exists>m. e = Exception m"
  by (auto simp: press_enter_def split: list.splits answer.splits)

lemma main_camera_choice_raise:
  "fst (snd (main_camera_choice b cameras cons)) = Inl (Raise e) \<Longrightarrow> \<exists>m. e = Exception m"
  using select_camera_raise [of b cameras cons e]
  by (simp add: main_camera_choice_def split: if_splits)

lemma select_microphone_source_raise:
  "fst (snd (select_microphone_source b cons)) = Inl (Raise e) \<Longrightarrow> \<exists>m. e = Exception m"
  using choose_microphone_raise [of b cons e]
  by (simp add: select_microphone_source_def split: prod.splits)

lemma main_configure_raise:
  assumes "snd (main_configure b parse env) = Inl (Raise e)"
  shows "(\<exists>m. e = Exception m) \<or> no_device_reachable env \<or> camera_info_unavailable parse env"
proof -
  obtain e1 ok where 1: "check_adb_devices (adb_devices env) = (e1, ok)"
    by (cases "check_adb_devices (adb_devices env)")
  obtain e2 cams where 2: "get_camera_info parse (camera_sizes env) = (e2, cams)"
    by (cases "get_camera_info parse (camera_sizes env)")
  show ?thesis
  proof (cases "ok \<and> cams \<noteq> None")
    case False
    with 1 2 show ?thesis
      by (auto simp: no_device_reachable_def camera_info_unavailable_def)
  next
    case True
    then obtain cameras where c: "ok" "cams = Some cameras" by auto
    obtain e3 r3 c3 where 3: "main_camera_choice b cameras (console env) = (e3, r3, c3)"
      by (cases "main_camera_choice b cameras (console env)")
    show ?thesis
    proof (cases r3)
      case (Inl s)
      with assms 1 2 c 3 main_camera_choice_raise [of b cameras "console env" e] show ?thesis
        by (simp add: main_configure_def)
    next
      case (Inr triple)
      obtain camera_id resolution fps where t: "triple = (camera_id, resolution, fps)"
        by (cases triple)
      obtain e4 r4 c4 where 4: "select_microphone_source b c3 = (e4, r4, c4)"
        by (cases "select_microphone_source b c3")
      show ?thesis
      proof (cases r4)
        case (Inl s)
        with assms 1 2 c 3 Inr t 4 select_microphone_source_raise [of b c3 e] show ?thesis
          by (simp add: main_configure_def)
      next
        case mic: (Inr mic_source)
        obtain e5 r5 where 5: "press_enter c4 = (e5, r5)"
          by (cases "press_enter c4")
        with assms 1 2 c 3 Inr t 4 mic press_enter_raise [of c4 e] show ?thesis
          by (cases r5) (simp_all add: main_configure_def)
      qed
    qed
  qed
qed


lemma main_at_loop:
  assumes "world_at_loop b parse env = Some w"
  shows "fst (snd (main b parse env)) = fst (snd (main_run b env w))"
proof -
  obtain e1 r1 where 1: "main_configure b parse env = (e1, r1)"
    by (cases "main_configure b parse env")
  obtain e2 r2 w2 where 2: "main_prepare env = (e2, r2, w2)"
    by (cases "main_prepare env")
  from assms 1 obtain config where c: "r1 = Inr config"
    by (cases r1) (simp_all add: world_at_loop_def)
  from assms 1 2 c have u: "r2 = Inr ()"
    by (cases r2) (simp_all add: world_at_loop_def)
  obtain e3 r3 w3 where 3: "main_launch env config w2 = (e3, r3, w3)"
    by (cases "main_launch env config w2")
  from assms 1 2 c u 3 have l: "r3 = Inr ()" "w3 = w"
    by (cases r3; simp add: world_at_loop_def)+
  from 1 2 3 c u l show ?thesis
    by (cases "main_run b env w") (simp add: main_def)
qed

lemma signal_at_prompt:
  "fst (snd (signal_handler r (initial_world env))) = SystemExit 0"
  by (rule signal_handler_finished) (simp add: initial_world_def)

lemma main_ending:
  assumes "fst (snd (main b parse env)) = Raised e"
  shows "e = SystemExit 0
    \<or> e = Exception ''cannot set daemon status of active thread''
    \<or> startup_or_launch_failure parse env
    \<or> configuration_raised b parse env"
proof -
  obtain e1 r1 where 1: "main_configure b parse env = (e1, r1)"
    by (cases "main_configure b parse env")
  show ?thesis
  proof (cases r1)
    case (Inl s)
    show ?thesis
    proof (cases s)
      case (Raise x)
      with assms 1 Inl have x: "x = e" by (simp add: main_def)
      with 1 Inl Raise have c: "snd (main_configure b parse env) = Inl (Raise e)"
        by simp
      from main_configure_raise [OF c] show ?thesis
      proof (elim disjE exE)
        fix m
        assume "e = Exception m"
        with c show ?thesis by (simp add: configuration_raised_def)
      next
        assume "no_device_reachable env"
        then show ?thesis by (simp add: startup_or_launch_failure_def)
      next
        assume "camera_info_unavailable parse env"
        then show ?thesis by (simp add: startup_or_launch_failure_def)
      qed
    next
      case (Signalled r)
      with assms 1 Inl signal_at_prompt [of r env] show ?thesis
        by (cases "signal_handler r (initial_world env)") (simp add: main_def)
    qed
  next
    case (Inr config)
    obtain e2 r2 w2 where 2: "main_prepare env = (e2, r2, w2)"
      by (cases "main_prepare env")
    show ?thesis
    proof (cases r2)
      case (Inl x)
      with 2 main_prepare_raised [of env x] show ?thesis
        by (auto simp: startup_or_launch_failure_def)
    next
      case u: (Inr u)
      obtain e3 r3 w3 where 3: "main_launch env config w2 = (e3, r3, w3)"
        by (cases "main_launch env config w2")
      show ?thesis
      proof (cases r3)
        case (Inl x)
        with 3 main_launch_raised [of env config w2 x] show ?thesis
          by (auto simp: startup_or_launch_failure_def)
      next
        case l: (Inr u')
        from 1 2 3 Inr u l have "world_at_loop b parse env = Some w3"
          by (simp add: world_at_loop_def)
        from main_at_loop [OF this] assms main_run_raised [of b env w3 e] show ?thesis
          by auto
      qed
    qed
  qed
qed

lemma run_program_status:
  "snd (run_program b parse env) = exit_status (fst (snd (main b parse env)))"
  by (cases "main b parse env"; cases "fst (snd (main b parse env))")
    (auto simp: run_program_def split: ending.splits)

text \<open>
  C4, amended. Unless \<open>cleanup\<close> itself raises, the exit status of the program is non-zero
  only when a startup precondition cannot be satisfied or a launch fails (no device
  reachable, camera information unavailable, loopback module or virtual microphone not
  set up, a capture process not started), or when the interactive configuration ends by
  an exception that nothing catches: the end of the input at a prompt, or an error on the
  data of the selected camera. An operator interrupt at any prompt gives exit status
  zero. And when \<open>main\<close> has reached the waiting loop, every way the loop ends
  (disconnection, all tracked processes gone, an operator interrupt or another
  termination signal) gives exit status zero, the launcher threads being no longer alive
  when \<open>cleanup\<close> looks at them.
\<close>

theorem exit_status_by_cause:
  "(\<forall>n. snd (run_program b parse env) = Some n \<and> n \<noteq> 0 \<longrightarrow>
        startup_or_launch_failure parse env
      \<or> configuration_raised b parse env
      \<or> fst (snd (main b parse env))
          = Raised (Exception ''cannot set daemon status of active thread''))
   \<and> (\<forall>r. snd (main_configure b parse env) = Inl (Signalled r) \<longrightarrow>
          snd (run_program b parse env) = Some 0)
   \<and> (\<forall>w. world_at_loop b parse env = Some w \<and> threads_finished env w
            \<and> snd (run_program b parse env) \<noteq> None \<longrightarrow>
          snd (run_program b parse env) = Some 0)"
proof (intro conjI allI impI)
  fix n
  assume a: "snd (run_program b parse env) = Some n \<and> n \<noteq> 0"
  then have st: "exit_status (fst (snd (main b parse env))) = Some n" and n: "n \<noteq> 0"
    by (simp_all add: run_program_status)
  show "startup_or_launch_failure parse env \<or> configuration_raised b parse env
      \<or> fst (snd (main b parse env))
          = Raised (Exception ''cannot set daemon status of active thread'')"
  proof (cases "fst (snd (main b parse env))")
    case Returned
    with st n show ?thesis by simp
  next
    case (Raised e)
    with st n have "e \<noteq> SystemExit 0" by auto
    with main_ending [OF Raised] Raised show ?thesis by auto
  next
    case Running
    with st show ?thesis by simp
  qed
next
  fix r
  assume a: "snd (main_configure b parse env) = Inl (Signalled r)"
  then obtain e1 where 1: "main_configure b parse env = (e1, Inl (Signalled r))"
    by (cases "main_configure b parse env") simp
  have "fst (snd (main b parse env)) = Raised (SystemExit 0)"
    using 1 signal_at_prompt [of r env]
    by (cases "signal_handler r (initial_world env)") (simp add: main_def)
  then show "snd (run_program b parse env) = Some 0"
    by (simp add: run_program_status)
next
  fix w
  assume a: "world_at_loop b parse env = Some w \<and> threads_finished env w
    \<and> snd (run_program b parse env) \<noteq> None"
  then have m: "fst (snd (main b parse env)) = fst (snd (main_run b env w))"
    using main_at_loop by blast
  from a have "exit_status (fst (snd (main_run b env w))) \<noteq> None"
    by (simp add: run_program_status m)
  then have "fst (snd (main_run b env w)) \<noteq> Running"
    by auto
  with a show "snd (run_program b parse env) = Some 0"
    by (simp add: run_program_status m main_run_finished)
qed


text \<open>The example runs, part by part.\<close>

lemma smooth_run_fields:
  "adb_devices smooth_run = Completed one_ready_one_offline []"
  "camera_sizes smooth_run = Completed [] []"
  "console smooth_run = [Typed [], Typed []]"
  "stale_pipe smooth_run = False"
  "lsmod smooth_run = Completed ''v4l2loopback 49152 0'' []"
  "modprobe smooth_run = None"
  "remove_stale_pipe smooth_run = None"
  "mkfifo smooth_run = None"
  "load_module smooth_run = Completed ''42\<newline>'' []"
  "popen_video smooth_run = Inr 1"
  "popen_audio smooth_run = Inr 2"
  "observations smooth_run = [Tick False (\<lambda>p. None), Tick True (\<lambda>p. None)]"
  "at_shutdown smooth_run = all_return"
  "at_exit smooth_run = all_return"
  by (simp_all add: smooth_run_def)

lemma closed_console_fields:
  "adb_devices closed_console = Completed one_ready_one_offline []"
  "camera_sizes closed_console = Completed [] []"
  "console closed_console = []"
  "stale_pipe closed_console = False"
  "lsmod closed_console = Completed ''v4l2loopback 49152 0'' []"
  "modprobe closed_console = None"
  "remove_stale_pipe closed_console = None"
  "mkfifo closed_console = None"
  "load_module closed_console = Completed ''42\<newline>'' []"
  "popen_video closed_console = Inr 1"
  "popen_audio closed_console = Inr 2"
  by (simp_all add: closed_console_def smooth_run_def)

lemma get_camera_info_example:
  "snd (get_camera_info parse (Completed [] [])) = Some (parse [])"
  by (simp add: get_camera_info_def)

lemma smooth_run_prepare:
  "snd (main_prepare smooth_run) =
     (Inr (), \<lparr>MODULE_ID = Some ''42'', scrcpy_processes = [], monitoring_threads = [],
              device_disconnected = False, pipe_exists = True\<rparr>)"
  by (simp add: main_prepare_def smooth_run_fields load_v4l2loopback_def
      check_v4l2loopback_def setup_virtual_mic_def initial_world_def Let_def strip_def
      isspace_def)

lemma closed_console_no_failure:
  "\<not> startup_or_launch_failure (\<lambda>out. back_camera) closed_console"
  by (simp add: startup_or_launch_failure_def no_device_reachable_def
      camera_info_unavailable_def loopback_setup_failed_def virtual_mic_setup_failed_def
      launch_failed_def closed_console_fields check_adb_devices_example
      get_camera_info_example load_v4l2loopback_def check_v4l2loopback_def
      setup_virtual_mic_def initial_world_def Let_def)

lemma closed_console_configure:
  "snd (main_configure decimal (\<lambda>out. back_camera) closed_console)
     = Inl (Raise (Exception ''EOF when reading a line''))"
  by (simp add: main_configure_def closed_console_fields check_adb_devices_example
      get_camera_info_def main_camera_choice_def select_camera_def back_camera_def Let_def)

lemma smooth_run_configure:
  "snd (main_configure decimal (\<lambda>out. []) smooth_run)
     = Inr (''0'', ''1920x1080'', ''60'', ''mic-camcorder'')"
  by (simp add: main_configure_def smooth_run_fields check_adb_devices_example
      get_camera_info_def main_camera_choice_def select_microphone_source_def
      press_enter_def DEFAULT_FPS_def strip_def Let_def)

lemma smooth_run_at_loop:
  "world_at_loop decimal (\<lambda>out. []) smooth_run = Some after_setup"
  using smooth_run_prepare
  by (cases "main_prepare smooth_run")
    (simp add: world_at_loop_def smooth_run_configure main_launch_def smooth_run_fields
      start_scrcpy_video_def start_scrcpy_audio_def after_setup_def Let_def)

lemma smooth_run_threads: "threads_finished smooth_run after_setup"
  by (simp add: threads_finished_def smooth_run_fields after_setup_def all_return_def)


lemma main_configure_fallback:
  assumes "snd (get_camera_info parse (camera_sizes env)) = Some []"
    and "snd (main_configure b parse env) = Inr config"
  shows "\<exists>mic_source. config = (''0'', ''1920x1080'', ''60'', mic_source)"
proof -
  obtain e1 ok where 1: "check_adb_devices (adb_devices env) = (e1, ok)"
    by (cases "check_adb_devices (adb_devices env)")
  obtain e2 where 2: "get_camera_info parse (camera_sizes env) = (e2, Some [])"
    using assms(1) by (cases "get_camera_info parse (camera_sizes env)") simp
  from assms(2) 1 have ok: ok by (cases ok) (simp_all add: main_configure_def)
  obtain e4 r4 c4 where 4: "select_microphone_source b (console env) = (e4, r4, c4)"
    by (cases "select_microphone_source b (console env)")
  from assms(2) 1 2 ok 4 obtain mic where mic: "r4 = Inr mic"
    by (cases r4) (simp_all add: main_configure_def main_camera_choice_def)
  obtain e5 r5 where 5: "press_enter c4 = (e5, r5)"
    by (cases "press_enter c4")
  from assms(2) 1 2 ok 4 mic 5 show ?thesis
    by (cases r5) (auto simp: main_configure_def main_camera_choice_def DEFAULT_FPS_def)
qed

lemma main_launch_popen:
  "Popen (video_command camera_id resolution fps)
     \<in> set (fst (main_launch env (camera_id, resolution, fps, mic_source) w))"
  by (auto simp: main_launch_def start_scrcpy_video_def start_scrcpy_audio_def Let_def
      split: sum.splits prod.splits option.splits)

lemma main_events_at_loop:
  assumes "world_at_loop b parse env = Some w"
    and "snd (main_configure b parse env) = Inr config"
  shows "set (fst (main_launch env config (snd (snd (main_prepare env)))))
     \<subseteq> set (fst (main b parse env))"
proof -
  obtain e1 r1 where 1: "main_configure b parse env = (e1, r1)"
    by (cases "main_configure b parse env")
  obtain e2 r2 w2 where 2: "main_prepare env = (e2, r2, w2)"
    by (cases "main_prepare env")
  from assms 1 have c: "r1 = Inr config" by simp
  from assms 1 2 c have u: "r2 = Inr ()"
    by (cases r2) (simp_all add: world_at_loop_def)
  obtain e3 r3 w3 where 3: "main_launch env config w2 = (e3, r3, w3)"
    by (cases "main_launch env config w2")
  from assms 1 2 c u 3 have l: "r3 = Inr ()"
    by (cases r3; simp add: world_at_loop_def)
  from 1 2 3 c u l show ?thesis
    by (cases "main_run b env w3") (auto simp: main_def)
qed

text \<open>
  C10. On an empty dictionary \<open>select_camera\<close> prints one line and returns the fixed
  configuration: camera \<open>0\<close>, \<open>1920x1080\<close>, the default rate \<open>60\<close>. It calls \<open>input\<close> not
  once: there is no prompt among its events and the console is returned as it was.
  \<open>main\<close> does the same in its own branch for an empty dictionary, without calling
  \<open>select_camera\<close>; when it then gets as far as the waiting loop, the video process has
  been started with that configuration.
\<close>

theorem no_cameras_fallback:
  "select_camera b [] cons
     = ([Print ''[!] No cameras found''], Inr (''0'', ''1920x1080'', ''60''), cons)
   \<and> main_camera_choice b [] cons
     = ([Print ''[!] No cameras found on the device''], Inr (''0'', ''1920x1080'', ''60''), cons)
   \<and> (\<forall>w. snd (get_camera_info parse (camera_sizes env)) = Some []
            \<and> world_at_loop b parse env = Some w \<longrightarrow>
          Popen (video_command ''0'' ''1920x1080'' ''60'') \<in> set (fst (main b parse env)))"
proof (intro conjI allI impI)
  show "select_camera b [] cons
     = ([Print ''[!] No cameras found''], Inr (''0'', ''1920x1080'', ''60''), cons)"
    by (simp add: select_camera_def DEFAULT_FPS_def)
  show "main_camera_choice b [] cons
     = ([Print ''[!] No cameras found on the device''], Inr (''0'', ''1920x1080'', ''60''), cons)"
    by (simp add: main_camera_choice_def DEFAULT_FPS_def)
next
  fix w
  assume a: "snd (get_camera_info parse (camera_sizes env)) = Some []
    \<and> world_at_loop b parse env = Some w"
  then obtain config where c: "snd (main_configure b parse env) = Inr config"
    by (cases "snd (main_configure b parse env)") (simp_all add: world_at_loop_def)
  with a main_configure_fallback obtain mic_source
    where "config = (''0'', ''1920x1080'', ''60'', mic_source)"
    by blast
  then have "Popen (video_command ''0'' ''1920x1080'' ''60'')
      \<in> set (fst (main_launch env config (snd (snd (main_prepare env)))))"
    by (simp add: main_launch_popen)
  with a c main_events_at_loop show
    "Popen (video_command ''0'' ''1920x1080'' ''60'') \<in> set (fst (main b parse env))"
    by blast
qed

theorem no_cameras_fallback_witness:
  "snd (get_camera_info (\<lambda>out. []) (camera_sizes smooth_run)) = Some []
   \<and> world_at_loop decimal (\<lambda>out. []) smooth_run = Some after_setup
   \<and> Popen [''scrcpy'', ''--video-source=camera'', ''--camera-id=0'', ''--no-audio'',
             ''--v4l2-sink=/dev/video0'', ''--camera-size=1920x1080'', ''--camera-fps=60'',
             ''--port'', ''27183'', ''--no-window'']
       \<in> set (fst (main decimal (\<lambda>out. []) smooth_run))"
proof -
  have g: "snd (get_camera_info (\<lambda>out. []) (camera_sizes smooth_run)) = Some []"
    by (simp add: smooth_run_fields get_camera_info_def)
  have v: "video_command ''0'' ''1920x1080'' ''60''
      = [''scrcpy'', ''--video-source=camera'', ''--camera-id=0'', ''--no-audio'',
         ''--v4l2-sink=/dev/video0'', ''--camera-size=1920x1080'', ''--camera-fps=60'',
         ''--port'', ''27183'', ''--no-window'']"
    by (simp add: video_command_def V4L2_DEVICE_def)
  from no_cameras_fallback [of decimal "[]" "\<lambda>out. []" smooth_run] g smooth_run_at_loop
  have "Popen (video_command ''0'' ''1920x1080'' ''60'')
      \<in> set (fst (main decimal (\<lambda>out. []) smooth_run))"
    by blast
  with g smooth_run_at_loop show ?thesis by (simp only: v simp_thms)
qed

lemma closed_console_main:
  "fst (snd (main decimal (\<lambda>out. back_camera) closed_console))
     = Raised (Exception ''EOF when reading a line'')"
  using closed_console_configure
  by (cases "main_configure decimal (\<lambda>out. back_camera) closed_console")
    (simp add: main_def)

text \<open>
  C4 fails as stated. With a device ready, a camera listed, and every setup step and
  launch bound to succeed, a console at its end makes the first \<open>input\<close> raise EOFError,
  which nothing catches: the exit status is 1 and none of the named failures occurred.
\<close>

theorem closed_console_exit_status:
  "snd (run_program decimal (\<lambda>out. back_camera) closed_console) = Some 1
   \<and> \<not> startup_or_launch_failure (\<lambda>out. back_camera) closed_console"
  by (simp add: run_program_status closed_console_main closed_console_no_failure)

lemma smooth_run_ends:
  "fst (snd (main_run decimal smooth_run after_setup)) = Returned"
  by (simp add: main_run_def smooth_run_fields after_setup_def Let_def cleanup_def
      all_return_def)

lemma interrupted_prompt_configure:
  "snd (main_configure decimal (\<lambda>out. []) interrupted_prompt) = Inl (Signalled all_return)"
  by (simp add: main_configure_def interrupted_prompt_def smooth_run_def
      check_adb_devices_example get_camera_info_def main_camera_choice_def
      select_microphone_source_def)

theorem exit_status_by_cause_witness:
  "snd (run_program decimal (\<lambda>out. back_camera) closed_console) = Some 1
   \<and> configuration_raised decimal (\<lambda>out. back_camera) closed_console
   \<and> snd (main_configure decimal (\<lambda>out. []) interrupted_prompt) = Inl (Signalled all_return)
   \<and> snd (run_program decimal (\<lambda>out. []) interrupted_prompt) = Some 0
   \<and> world_at_loop decimal (\<lambda>out. []) smooth_run = Some after_setup
   \<and> threads_finished smooth_run after_setup
   \<and> snd (run_program decimal (\<lambda>out. []) smooth_run) = Some 0"
proof -
  have s1: "snd (run_program decimal (\<lambda>out. back_camera) closed_console) = Some 1"
    by (simp add: run_program_status closed_console_main)
  have c1: "configuration_raised decimal (\<lambda>out. back_camera) closed_console"
    by (simp add: configuration_raised_def closed_console_configure)
  have "fst (snd (main decimal (\<lambda>out. []) smooth_run)) = Returned"
    using main_at_loop [OF smooth_run_at_loop] smooth_run_ends by simp
  then have n: "snd (run_program decimal (\<lambda>out. []) smooth_run) \<noteq> None"
    by (simp add: run_program_status)
  from exit_status_by_cause [of decimal "\<lambda>out. []" smooth_run]
    smooth_run_at_loop smooth_run_threads n
  have s0: "snd (run_program decimal (\<lambda>out. []) smooth_run) = Some 0"
    by blast
  from exit_status_by_cause [of decimal "\<lambda>out. []" interrupted_prompt]
    interrupted_prompt_configure
  have i0: "snd (run_program decimal (\<lambda>out. []) interrupted_prompt) = Some 0"
    by blast
  from exit_status_by_cause [of decimal "\<lambda>out. back_camera" closed_console] s1
  have "startup_or_launch_failure (\<lambda>out. back_camera) closed_console
      \<or> configuration_raised decimal (\<lambda>out. back_camera) closed_console
      \<or> fst (snd (main decimal (\<lambda>out. back_camera) closed_console))
          = Raised (Exception ''cannot set daemon status of active thread'')"
    by simp
  with s1 c1 s0 i0 interrupted_prompt_configure smooth_run_at_loop smooth_run_threads
  show ?thesis by simp
qed

end
